theory Spec2Isabelle
  imports Complex_Main "HOL-Library.Word"
begin

section \<open>BlockTracker: validators, formatters and the Web3 service layer\<close>

text \<open>
  A shallow embedding of \<^verbatim>\<open>docs/utils/helpers.js\<close>, \<^verbatim>\<open>src/js/web3-service.js\<close> and the
  \<^verbatim>\<open>analyze*\<close> functions of the application script.

  A JavaScript string is a sequence of code units; it is modelled as a \<^typ>\<open>string\<close>, one
  \<^typ>\<open>char\<close> for one code unit, so that \<^const>\<open>length\<close> is the \<^verbatim>\<open>.length\<close> of the source.
  \<^verbatim>\<open>null\<close> and \<^verbatim>\<open>undefined\<close> are \<^const>\<open>None\<close> of an option type. A thrown exception is the
  \<^const>\<open>Inl\<close> side of a sum. Output on the console is not modelled.
\<close>

subsection \<open>Strings of the JavaScript library\<close>

text \<open>\<^verbatim>\<open>String.prototype.slice(start, end)\<close>: a negative index counts from the end, and
  both indices are clamped to the string.\<close>

definition js_index :: "nat \<Rightarrow> int \<Rightarrow> nat" where
  "js_index len i = (if i < 0 then nat (max (int len + i) 0) else min (nat i) len)"

definition js_slice :: "string \<Rightarrow> int \<Rightarrow> int \<Rightarrow> string" where
  "js_slice s start stop =
     (let from = js_index (length s) start; to = js_index (length s) stop
      in take (to - from) (drop from s))"

text \<open>\<^verbatim>\<open>slice(start)\<close>: the end defaults to the length.\<close>

definition js_slice_from :: "string \<Rightarrow> int \<Rightarrow> string" where
  "js_slice_from s start = js_slice s start (int (length s))"

text \<open>\<^verbatim>\<open>str.replace(/[...]/g, f)\<close> for a character class: every code unit of the class is
  replaced by what the callback returns for it, the others are kept.\<close>

definition js_replace_class :: "(char \<Rightarrow> bool) \<Rightarrow> (char \<Rightarrow> string) \<Rightarrow> string \<Rightarrow> string" where
  "js_replace_class cls f s = concat (map (\<lambda>c. if cls c then f c else [c]) s)"

text \<open>The pieces of an anchored regular expression, each consuming a prefix of the
  input and returning the rest, or \<^const>\<open>None\<close> when it does not match.\<close>

fun match_lit :: "char \<Rightarrow> string \<Rightarrow> string option" where
  "match_lit c [] = None"
| "match_lit c (x # xs) = (if x = c then Some xs else None)"

fun match_class_n :: "(char \<Rightarrow> bool) \<Rightarrow> nat \<Rightarrow> string \<Rightarrow> string option" where
  "match_class_n cls 0 s = Some s"
| "match_class_n cls (Suc n) [] = None"
| "match_class_n cls (Suc n) (x # xs) = (if cls x then match_class_n cls n xs else None)"

definition in_range :: "char \<Rightarrow> char \<Rightarrow> char \<Rightarrow> bool" where
  "in_range lo hi c = ((of_char lo :: nat) \<le> of_char c \<and> (of_char c :: nat) \<le> of_char hi)"

subsection \<open>Decimal digits\<close>

text \<open>Integers of the source, \<^verbatim>\<open>bigint\<close> values among them, are \<^typ>\<open>int\<close>. A decimal digit
  is a code unit from \<^verbatim>\<open>0\<close> to \<^verbatim>\<open>9\<close>.\<close>

definition is_digit :: "char \<Rightarrow> bool" where
  "is_digit c = in_range CHR ''0'' CHR ''9'' c"

definition digit_val :: "char \<Rightarrow> int" where
  "digit_val c = of_char c - 48"

definition digit_char :: "int \<Rightarrow> char" where
  "digit_char d = ''0123456789'' ! nat d"

text \<open>The value of a string of decimal digits.\<close>

definition digits_val :: "string \<Rightarrow> int" where
  "digits_val ds = foldl (\<lambda>a c. 10 * a + digit_val c) 0 ds"

text \<open>The decimal digits of a non-negative integer, without leading zeros.\<close>

function show_nat :: "int \<Rightarrow> string" where
  "show_nat n = (if n < 10 then [digit_char n] else show_nat (n div 10) @ [digit_char (n mod 10)])"
  by pat_completeness auto
termination
  by (relation "measure nat") auto

declare show_nat.simps [simp del]

text \<open>\<^verbatim>\<open>BigInt.prototype.toString()\<close>.\<close>

definition show_int :: "int \<Rightarrow> string" where
  "show_int i = (if i < 0 then CHR ''-'' # show_nat (- i) else show_nat i)"

subsection \<open>Numbers\<close>

text \<open>A JavaScript number is a binary64 value: \<^verbatim>\<open>NaN\<close>, an infinity, or a finite double,
  which is modelled by the rational it denotes (the two zeros are one). Arithmetic is
  exact arithmetic on the rationals followed by rounding to the nearest double, ties to
  even, as IEEE 754 and ECMAScript define it.\<close>

datatype number = NaN | NegInf | Num rat | PosInf

text \<open>Powers of two and of ten with integer exponents.\<close>

definition pow2 :: "int \<Rightarrow> rat" where
  "pow2 e = (if 0 \<le> e then 2 ^ nat e else 1 / 2 ^ nat (- e))"

definition pow10 :: "int \<Rightarrow> rat" where
  "pow10 e = (if 0 \<le> e then 10 ^ nat e else 1 / 10 ^ nat (- e))"

text \<open>The number of digits of a positive integer in base \<open>b\<close>.\<close>

function ndigits :: "int \<Rightarrow> int \<Rightarrow> nat" where
  "ndigits b n = (if b < 2 \<or> n < b then 1 else Suc (ndigits b (n div b)))"
  by pat_completeness auto
termination
  by (relation "measure (\<lambda>(b, n). nat n)") (auto simp: zless_nat_conj intro!: int_div_less_self)

declare ndigits.simps [simp del]

definition bpow :: "int \<Rightarrow> int \<Rightarrow> rat" where
  "bpow b k = (if 0 \<le> k then of_int b ^ nat k else 1 / of_int b ^ nat (- k))"

text \<open>\<open>\<lfloor>log\<^sub>b q\<rfloor>\<close> of a positive rational, from the lengths of its numerator and its
  denominator.\<close>

definition flog :: "int \<Rightarrow> rat \<Rightarrow> int" where
  "flog b q =
     (let (n, d) = quotient_of q;
          k = int (ndigits b n) - int (ndigits b d)
      in if bpow b k \<le> q then k else k - 1)"

text \<open>The nearest integer, a tie going to the even one.\<close>

definition round_half_even :: "rat \<Rightarrow> int" where
  "round_half_even q =
     (let f = \<lfloor>q\<rfloor>; d = q - of_int f
      in if d < 1 / 2 then f else if 1 / 2 < d then f + 1 else if even f then f else f + 1)"

text \<open>The number value of a rational: the nearest double. A double has 53 significant
  bits and an exponent of at least \<open>-1074\<close> (the subnormal range), and a value that rounds
  to \<open>2\<^sup>1\<^sup>0\<^sup>2\<^sup>4\<close> or more is an infinity.\<close>

definition to_double :: "rat \<Rightarrow> number" where
  "to_double q =
     (if q = 0 then Num 0
      else
        let a = \<bar>q\<bar>;
            e = max (flog 2 a - 52) (- 1074);
            v = of_int (round_half_even (a / pow2 e)) * pow2 e
        in if pow2 1024 \<le> v then (if q < 0 then NegInf else PosInf)
           else Num (if q < 0 then - v else v))"

subsection \<open>Parsing numbers\<close>

text \<open>White space, among the code units below 256.\<close>

definition is_ws :: "char \<Rightarrow> bool" where
  "is_ws c = ((of_char c :: nat) \<in> {9, 10, 11, 12, 13, 32, 160})"

text \<open>The value of the \<^verbatim>\<open>ExponentPart\<close> at the head of a string, if there is one: \<^verbatim>\<open>e\<close> or
  \<^verbatim>\<open>E\<close>, an optional sign and at least one digit.\<close>

definition exponent_part :: "string \<Rightarrow> int" where
  "exponent_part s =
     (case s of
        [] \<Rightarrow> 0
      | c # r \<Rightarrow>
          if c = CHR ''e'' \<or> c = CHR ''E'' then
            (case r of
               [] \<Rightarrow> 0
             | g # r' \<Rightarrow>
                 if g = CHR ''+'' \<or> g = CHR ''-'' then
                   (let ds = takeWhile is_digit r'
                    in if ds = [] then 0 else if g = CHR ''-'' then - digits_val ds else digits_val ds)
                 else
                   (let ds = takeWhile is_digit r in if ds = [] then 0 else digits_val ds))
          else 0)"

text \<open>The number of the longest prefix that is a \<^verbatim>\<open>StrUnsignedDecimalLiteral\<close>:
  \<^verbatim>\<open>Infinity\<close>, or digits with an optional fraction and exponent; \<^verbatim>\<open>NaN\<close> when no prefix is
  one.\<close>

definition str_unsigned_decimal :: "string \<Rightarrow> number" where
  "str_unsigned_decimal s =
     (if take 8 s = ''Infinity'' then PosInf
      else
        let ip = takeWhile is_digit s; r = dropWhile is_digit s
        in (case r of
              [] \<Rightarrow> if ip = [] then NaN else to_double (of_int (digits_val ip))
            | c # r2 \<Rightarrow>
                if c = CHR ''.'' then
                  (let fp = takeWhile is_digit r2; r3 = dropWhile is_digit r2
                   in if ip = [] \<and> fp = [] then NaN
                      else to_double (of_int (digits_val (ip @ fp))
                             * pow10 (exponent_part r3 - int (length fp))))
                else if ip = [] then NaN
                else to_double (of_int (digits_val ip) * pow10 (exponent_part r))))"

definition negate :: "number \<Rightarrow> number" where
  "negate v = (case v of NaN \<Rightarrow> NaN | NegInf \<Rightarrow> PosInf | Num q \<Rightarrow> Num (- q) | PosInf \<Rightarrow> NegInf)"

text \<open>\<^verbatim>\<open>parseFloat(string)\<close>: leading white space is skipped, then a sign and the literal
  are read. The mathematical value is rounded correctly, as the engines in use do.\<close>

definition parseFloat :: "string \<Rightarrow> number" where
  "parseFloat s =
     (let t = dropWhile is_ws s
      in case t of
           [] \<Rightarrow> NaN
         | c # r \<Rightarrow>
             if c = CHR ''-'' then negate (str_unsigned_decimal r)
             else if c = CHR ''+'' then str_unsigned_decimal r
             else str_unsigned_decimal t)"

text \<open>\<^verbatim>\<open>parseInt(string)\<close> without a radix: white space, a sign, a \<^verbatim>\<open>0x\<close> prefix for radix
  16, then the longest run of digits of the radix; \<^verbatim>\<open>NaN\<close> when the run is empty.\<close>

definition hex_digit :: "char \<Rightarrow> bool" where
  "hex_digit c = (in_range CHR ''0'' CHR ''9'' c \<or> in_range CHR ''a'' CHR ''f'' c
     \<or> in_range CHR ''A'' CHR ''F'' c)"

definition hex_val :: "char \<Rightarrow> int" where
  "hex_val c =
     (if in_range CHR ''0'' CHR ''9'' c then of_char c - 48
      else if in_range CHR ''a'' CHR ''f'' c then of_char c - 87
      else of_char c - 55)"

definition radix_digit :: "int \<Rightarrow> char \<Rightarrow> bool" where
  "radix_digit R c = (hex_digit c \<and> hex_val c < R)"

definition radix_val :: "int \<Rightarrow> string \<Rightarrow> int" where
  "radix_val R ds = foldl (\<lambda>a c. R * a + hex_val c) 0 ds"

definition parseInt :: "string \<Rightarrow> number" where
  "parseInt s =
     (let t = dropWhile is_ws s;
          neg = (t \<noteq> [] \<and> hd t = CHR ''-'');
          t1 = (if t \<noteq> [] \<and> (hd t = CHR ''-'' \<or> hd t = CHR ''+'') then tl t else t);
          hex = (take 2 t1 = ''0x'' \<or> take 2 t1 = ''0X'');
          R = (if hex then 16 else 10);
          t2 = (if hex then drop 2 t1 else t1);
          z = takeWhile (radix_digit R) t2
      in if z = [] then NaN
         else to_double (of_int (if neg then - radix_val R z else radix_val R z)))"

subsection \<open>Printing numbers\<close>

text \<open>The digits \<open>s\<close> and the exponent \<open>n\<close> with \<open>k\<close> digits that denote the double \<open>x\<close>,
  if there are any: \<open>10\<^sup>k\<^sup>-\<^sup>1 \<le> s < 10\<^sup>k\<close> and \<open>s \<times> 10\<^sup>n\<^sup>-\<^sup>k\<close> rounds to \<open>x\<close>. Of two such \<open>s\<close> the
  one whose value is closer to \<open>x\<close> is taken, and of two equally close ones the even
  one.\<close>

definition digits_at :: "rat \<Rightarrow> nat \<Rightarrow> (int \<times> int) option" where
  "digits_at x k =
     (let n0 = flog 10 x + 1;
          lo = \<lfloor>x / pow10 (n0 - int k)\<rfloor>;
          hi = lo + 1;
          c1 = (n0, lo);
          c2 = (if hi = 10 ^ k then (n0 + 1, 10 ^ (k - 1)) else (n0, hi));
          val = (\<lambda>(n, s). of_int s * pow10 (n - int k));
          ok = (\<lambda>c. to_double (val c) = Num x)
      in if ok c1 \<and> ok c2 then
           (if x - val c1 < val c2 - x then Some c1
            else if val c2 - x < x - val c1 then Some c2
            else if even (snd c1) then Some c1
            else Some c2)
         else if ok c1 then Some c1
         else if ok c2 then Some c2
         else None)"

text \<open>The shortest such digits: \<open>(k, n, s)\<close> with \<open>k\<close> as small as possible.\<close>

definition shortest_digits :: "rat \<Rightarrow> nat \<times> int \<times> int" where
  "shortest_digits x =
     (case List.map_filter (\<lambda>k. map_option (Pair k) (digits_at x k)) [1..<18] of
        [] \<Rightarrow> (17, flog 10 x + 1, \<lfloor>x / pow10 (flog 10 x + 1 - 17)\<rfloor>)
      | r # _ \<Rightarrow> r)"

text \<open>\<^verbatim>\<open>Number::toString\<close> for a positive finite number.\<close>

definition positive_toString :: "rat \<Rightarrow> string" where
  "positive_toString x =
     (let (k, n, s) = shortest_digits x;
          ds = show_nat s;
          e = n - 1;
          es = (if e < 0 then CHR ''-'' else CHR ''+'') # show_nat \<bar>e\<bar>
      in if int k \<le> n \<and> n \<le> 21 then ds @ replicate (nat (n - int k)) CHR ''0''
         else if 0 < n \<and> n \<le> 21 then take (nat n) ds @ ''.'' @ drop (nat n) ds
         else if - 6 < n \<and> n \<le> 0 then ''0.'' @ replicate (nat (- n)) CHR ''0'' @ ds
         else if k = 1 then ds @ ''e'' @ es
         else take 1 ds @ ''.'' @ drop 1 ds @ ''e'' @ es)"

definition number_toString :: "number \<Rightarrow> string" where
  "number_toString v =
     (case v of
        NaN \<Rightarrow> ''NaN''
      | NegInf \<Rightarrow> ''-Infinity''
      | PosInf \<Rightarrow> ''Infinity''
      | Num x \<Rightarrow>
          if x = 0 then ''0''
          else if x < 0 then CHR ''-'' # positive_toString (- x)
          else positive_toString x)"

text \<open>\<^verbatim>\<open>Number.prototype.toFixed(fractionDigits)\<close>, for \<open>0 \<le> fractionDigits \<le> 100\<close>.\<close>

definition toFixed :: "number \<Rightarrow> nat \<Rightarrow> string" where
  "toFixed v f =
     (case v of
        Num x \<Rightarrow>
          (let sg = (if x < 0 then ''-'' else '''');
               a = \<bar>x\<bar>
           in if 10 ^ 21 \<le> a then sg @ positive_toString a
              else
                let n = \<lfloor>a * 10 ^ f + 1 / 2\<rfloor>;
                    m = show_nat n
                in if f = 0 then sg @ m
                   else
                     let m' = (if length m \<le> f then replicate (f + 1 - length m) CHR ''0'' @ m else m);
                         k = length m'
                     in sg @ take (k - f) m' @ ''.'' @ drop (k - f) m')
      | _ \<Rightarrow> number_toString v)"

subsection \<open>Arithmetic and sorting\<close>

text \<open>The subtraction of two numbers.\<close>

definition js_sub :: "number \<Rightarrow> number \<Rightarrow> number" where
  "js_sub a b =
     (case (a, b) of
        (NaN, _) \<Rightarrow> NaN
      | (_, NaN) \<Rightarrow> NaN
      | (PosInf, PosInf) \<Rightarrow> NaN
      | (NegInf, NegInf) \<Rightarrow> NaN
      | (PosInf, _) \<Rightarrow> PosInf
      | (NegInf, _) \<Rightarrow> NegInf
      | (_, PosInf) \<Rightarrow> NegInf
      | (_, NegInf) \<Rightarrow> PosInf
      | (Num x, Num y) \<Rightarrow> to_double (x - y))"

text \<open>The comparator's verdict \<^verbatim>\<open>v > 0\<close>: the first argument goes after the second. A
  verdict of \<^verbatim>\<open>NaN\<close> counts as \<open>0\<close>.\<close>

definition positive :: "number \<Rightarrow> bool" where
  "positive v = (case v of Num q \<Rightarrow> 0 < q | PosInf \<Rightarrow> True | _ \<Rightarrow> False)"

text \<open>\<^verbatim>\<open>Array.prototype.sort(comparator)\<close>: a stable sort, here by insertion.\<close>

fun insert_sorted :: "('a \<Rightarrow> 'a \<Rightarrow> number) \<Rightarrow> 'a \<Rightarrow> 'a list \<Rightarrow> 'a list" where
  "insert_sorted cmp x [] = [x]"
| "insert_sorted cmp x (y # ys) =
     (if positive (cmp x y) then y # insert_sorted cmp x ys else x # y # ys)"

definition js_sort :: "('a \<Rightarrow> 'a \<Rightarrow> number) \<Rightarrow> 'a list \<Rightarrow> 'a list" where
  "js_sort cmp xs = foldr (insert_sorted cmp) xs []"

subsection \<open>Errors\<close>

text \<open>What a \<^verbatim>\<open>throw\<close> carries: an \<^verbatim>\<open>Error\<close> the repository makes, with its message; the
  \<^verbatim>\<open>Error\<close> of \<^verbatim>\<open>initialize\<close>, whose message holds a gear emoji; a \<^verbatim>\<open>TypeError\<close> of the
  language; an error of the \<^verbatim>\<open>ethers\<close> library or of a built-in; the rejection of an upstream
  call, with the message the upstream gave.\<close>

datatype error = Error string | ApiKeysMissing | TypeError string | LibraryError string | Rejected string

text \<open>The gear emoji, two code units in the source, written as its UTF-8 bytes.\<close>

definition gear :: string where
  "gear = [CHR 0xE2, CHR 0x9A, CHR 0x99, CHR 0xEF, CHR 0xB8, CHR 0x8F]"

definition message :: "error \<Rightarrow> string" where
  "message e =
     (case e of
        Error m \<Rightarrow> m
      | ApiKeysMissing \<Rightarrow> ''Please configure your API keys in Settings ('' @ gear @ '' button)''
      | TypeError m \<Rightarrow> m
      | LibraryError m \<Rightarrow> m
      | Rejected m \<Rightarrow> m)"

subsection \<open>The ethers library\<close>

text \<open>\<^verbatim>\<open>formatUnits(value, decimals)\<close> of ethers v6 for a \<^verbatim>\<open>bigint\<close> and a number of decimals:
  the number must be an integer (\<^verbatim>\<open>getNumber\<close>) of at most 80 (\<^verbatim>\<open>getFormat\<close>), the value must
  fit 512 signed bits (\<^verbatim>\<open>checkValue\<close>), and the digits are written with the decimal point
  \<open>decimals\<close> places from the right, the whole part without leading zeros and the fraction
  without trailing zeros, one digit kept on each side.\<close>

definition Zeros :: string where
  "Zeros = replicate 128 CHR ''0''"

function pad_whole :: "int \<Rightarrow> string \<Rightarrow> string" where
  "pad_whole decimals str =
     (if int (length str) \<le> decimals then pad_whole decimals (Zeros @ str) else str)"
  by pat_completeness auto
termination
  by (relation "measure (\<lambda>(d, s). nat (d + 1 - int (length s)))") (auto simp: Zeros_def)

declare pad_whole.simps [simp del]

fun trim_whole :: "string \<Rightarrow> string" where
  "trim_whole (a # b # r) = (if a = CHR ''0'' \<and> b \<noteq> CHR ''.'' then trim_whole (b # r) else a # b # r)"
| "trim_whole [a] = (if a = CHR ''0'' then [] else [a])"
| "trim_whole [] = []"

definition trim_decimal :: "string \<Rightarrow> string" where
  "trim_decimal str = rev (trim_whole (rev str))"

definition fixed_toString :: "int \<Rightarrow> int \<Rightarrow> string" where
  "fixed_toString val decimals =
     (let negative = (if val < 0 then ''-'' else '''');
          str = show_nat \<bar>val\<bar>
      in if decimals = 0 then negative @ str
         else
           let str1 = pad_whole decimals str;
               index = nat (int (length str1) - decimals);
               str2 = take index str1 @ ''.'' @ drop index str1
           in negative @ trim_decimal (trim_whole str2))"

definition is_integer :: "rat \<Rightarrow> bool" where
  "is_integer q = (of_int \<lfloor>q\<rfloor> = q)"

definition formatUnits :: "int \<Rightarrow> number \<Rightarrow> error + string" where
  "formatUnits val unit =
     (case unit of
        Num d \<Rightarrow>
          if \<not> is_integer d then Inl (LibraryError ''underflow'')
          else if \<bar>d\<bar> > 2 ^ 53 - 1 then Inl (LibraryError ''overflow'')
          else if 80 < d then Inl (LibraryError ''invalid FixedNumber decimals (too large)'')
          else if val < - (2 ^ 511) \<or> 2 ^ 511 \<le> val then Inl (LibraryError ''overflow'')
          else Inr (fixed_toString val \<lfloor>d\<rfloor>)
      | _ \<Rightarrow> Inl (LibraryError ''underflow''))"

definition formatEther :: "int \<Rightarrow> error + string" where
  "formatEther wei = formatUnits wei (Num 18)"

text \<open>\<^verbatim>\<open>BigInt(string)\<close>: surrounding white space is dropped, the empty string is zero, a
  decimal literal may have a sign, a literal with a radix prefix may not.\<close>

definition js_trim :: "string \<Rightarrow> string" where
  "js_trim s = rev (dropWhile is_ws (rev (dropWhile is_ws s)))"

definition radix_literal :: "int \<Rightarrow> string \<Rightarrow> error + int" where
  "radix_literal R ds =
     (if ds \<noteq> [] \<and> list_all (radix_digit R) ds then Inr (radix_val R ds)
      else Inl (LibraryError ''Cannot convert to a BigInt''))"

definition StringToBigInt :: "string \<Rightarrow> error + int" where
  "StringToBigInt s =
     (let t = js_trim s; p = take 2 t
      in if t = [] then Inr 0
         else if p = ''0x'' \<or> p = ''0X'' then radix_literal 16 (drop 2 t)
         else if p = ''0o'' \<or> p = ''0O'' then radix_literal 8 (drop 2 t)
         else if p = ''0b'' \<or> p = ''0B'' then radix_literal 2 (drop 2 t)
         else if hd t = CHR ''-'' then map_sum id uminus (radix_literal 10 (tl t))
         else if hd t = CHR ''+'' then radix_literal 10 (tl t)
         else radix_literal 10 t)"

text \<open>\<^verbatim>\<open>getBigInt\<close> of ethers for a string: the empty string is refused, and a minus sign is
  taken off before \<^verbatim>\<open>BigInt\<close> reads the rest.\<close>

definition getBigInt :: "string \<Rightarrow> error + int" where
  "getBigInt v =
     (if v = [] then Inl (LibraryError ''invalid BigNumberish string: empty string'')
      else if hd v = CHR ''-'' \<and> take 1 (tl v) \<noteq> ''-'' then
        (case StringToBigInt (tl v) of
           Inl e \<Rightarrow> Inl (LibraryError ''invalid BigNumberish string'')
         | Inr i \<Rightarrow> Inr (- i))
      else
        (case StringToBigInt v of
           Inl e \<Rightarrow> Inl (LibraryError ''invalid BigNumberish string'')
         | Inr i \<Rightarrow> Inr i))"

definition formatEther_string :: "string \<Rightarrow> error + string" where
  "formatEther_string v = (case getBigInt v of Inl e \<Rightarrow> Inl e | Inr i \<Rightarrow> formatEther i)"

subsection \<open>helpers.js\<close>

text \<open>The class \<^verbatim>\<open>[a-fA-F0-9]\<close>.\<close>

definition hex_class :: "char \<Rightarrow> bool" where
  "hex_class c = (in_range CHR ''a'' CHR ''f'' c \<or> in_range CHR ''A'' CHR ''F'' c
     \<or> in_range CHR ''0'' CHR ''9'' c)"

text \<open>\<^verbatim>\<open>/^0x[a-fA-F0-9]{40}$/.test(address)\<close>. The expression has no \<^verbatim>\<open>m\<close> flag, so
  \<^verbatim>\<open>^\<close> is the start and \<^verbatim>\<open>$\<close> is the end of the whole input.\<close>

definition isValidAddress :: "string \<Rightarrow> bool" where
  "isValidAddress address =
     (case match_lit CHR ''0'' address of
        None \<Rightarrow> False
      | Some r1 \<Rightarrow>
          (case match_lit CHR ''x'' r1 of
             None \<Rightarrow> False
           | Some r2 \<Rightarrow>
               (case match_class_n hex_class 40 r2 of
                  None \<Rightarrow> False
                | Some r3 \<Rightarrow> r3 = [])))"

text \<open>\<^verbatim>\<open>shortenAddress(address, startChars = 6, endChars = 4)\<close>. The address is a string,
  \<^verbatim>\<open>null\<close> or \<^verbatim>\<open>undefined\<close>; the falsy ones are \<^verbatim>\<open>null\<close>, \<^verbatim>\<open>undefined\<close> and the empty
  string. The two counts are JavaScript numbers holding integers.\<close>

definition shortenAddress :: "string option \<Rightarrow> int \<Rightarrow> int \<Rightarrow> string" where
  "shortenAddress address startChars endChars =
     (case address of
        None \<Rightarrow> ''''
      | Some a \<Rightarrow>
          if a = [] then ''''
          else if int (length a) \<le> startChars + endChars then a
          else js_slice a 0 startChars @ ''...'' @ js_slice_from a (- endChars))"

definition falsy_string :: "string option \<Rightarrow> bool" where
  "falsy_string v = (v = None \<or> v = Some [])"

text \<open>\<^verbatim>\<open>escapeMap\<close>, an object: a lookup of a key it does not have is \<^verbatim>\<open>undefined\<close>.\<close>

definition escapeMap :: "char \<Rightarrow> string option" where
  "escapeMap c =
     (if c = CHR ''&'' then Some ''&amp;''
      else if c = CHR ''<'' then Some ''&lt;''
      else if c = CHR ''>'' then Some ''&gt;''
      else if c = CHR 0x22 then Some ''&quot;''
      else if c = CHR 0x27 then Some ''&#39;''
      else None)"

text \<open>The class \<^verbatim>\<open>[&<>"']\<close>.\<close>

definition html_class :: "char \<Rightarrow> bool" where
  "html_class c = (c \<in> {CHR ''&'', CHR ''<'', CHR ''>'', CHR 0x22, CHR 0x27})"

text \<open>A callback that returns \<^verbatim>\<open>undefined\<close> makes \<^verbatim>\<open>replace\<close> insert the text
  \<^verbatim>\<open>undefined\<close>.\<close>

definition escapeHTML :: "string \<Rightarrow> string" where
  "escapeHTML str =
     js_replace_class html_class
       (\<lambda>char. case escapeMap char of Some e \<Rightarrow> e | None \<Rightarrow> ''undefined'') str"

text \<open>What \<^const>\<open>escapeHTML\<close> writes for one code unit.\<close>

definition esc :: "char \<Rightarrow> string" where
  "esc c = (if html_class c then (case escapeMap c of Some e \<Rightarrow> e | None \<Rightarrow> ''undefined'') else [c])"

subsection \<open>The upstream services\<close>

text \<open>The \<^verbatim>\<open>result\<close> of an envelope of the indexer: an array of records, a string (the
  indexer puts the text of an error there), \<^verbatim>\<open>null\<close> or a missing field, or any other value
  (a number, a boolean, an object; none of them has a property \<^verbatim>\<open>0\<close>, \<^verbatim>\<open>map\<close> or
  \<^verbatim>\<open>forEach\<close>).\<close>

datatype 'a json_result = Array "'a list" | Text string | Null | Other

text \<open>The JSON envelope of the indexer, \<^verbatim>\<open>{status, message, result}\<close>. The fields of the
  records are the strings the indexer sends.\<close>

record 'a envelope =
  status :: string
  msg :: string
  result :: "'a json_result"

record raw_tx =
  r_hash :: string
  r_from :: string
  r_to :: string
  r_value :: string
  r_timeStamp :: string
  r_blockNumber :: string
  r_isError :: string

record raw_transfer =
  t_contractAddress :: string
  t_tokenName :: string
  t_tokenSymbol :: string
  t_tokenDecimal :: string

record raw_source =
  s_ContractName :: string
  s_CompilerVersion :: string
  s_SourceCode :: string
  s_ABI :: string
  s_ConstructorArguments :: string

text \<open>The world outside the page: the clock (what \<^verbatim>\<open>new Date().toISOString()\<close> returns),
  \<^verbatim>\<open>localStorage\<close>, the JSON-RPC provider and the indexer. A call that rejects gives
  \<^const>\<open>Inl\<close> of the message of its error. \<^verbatim>\<open>uint256\<close> results are 256-bit words.\<close>

record world =
  clock :: string
  localStorage :: "string \<Rightarrow> string option"
  rpc_getNetwork :: "string + unit"
  rpc_getBalance :: "string \<Rightarrow> string + int"
  rpc_getTransactionCount :: "string \<Rightarrow> string + number"
  rpc_getBlockNumber :: "string + number"
  rpc_getCode :: "string \<Rightarrow> string + string"
  rpc_lookupAddress :: "string \<Rightarrow> string + string option"
  erc20_balanceOf :: "string \<Rightarrow> string \<Rightarrow> string + 256 word"
  erc721_name :: "string \<Rightarrow> string + string"
  erc721_symbol :: "string \<Rightarrow> string + string"
  erc721_totalSupply :: "string \<Rightarrow> string + 256 word"
  fetch_txlist :: "string \<Rightarrow> string + raw_tx envelope"
  fetch_tokentx :: "string \<Rightarrow> string + raw_transfer envelope"
  fetch_sourcecode :: "string \<Rightarrow> string + raw_source envelope"

text \<open>The upstream calls the service makes, in the order it makes them.\<close>

datatype call =
    CallGetNetwork
  | CallGetBalance string
  | CallGetTransactionCount string
  | CallGetBlockNumber
  | CallGetCode string
  | CallLookupAddress string
  | CallBalanceOf string string
  | CallName string
  | CallSymbol string
  | CallTotalSupply string
  | CallFetch string

subsection \<open>web3-service.js: the state of the service\<close>

text \<open>The fields of \<^verbatim>\<open>Web3Service\<close>. The provider is \<^verbatim>\<open>null\<close> or the
  \<^verbatim>\<open>JsonRpcProvider\<close> made for a URL. \<open>trace\<close> is not a field of the source: it records the
  upstream calls made so far.\<close>

record service =
  provider :: "string option"
  network :: string
  alchemyKey :: "string option"
  etherscanKey :: "string option"
  trace :: "call list"

text \<open>An \<^verbatim>\<open>async\<close> method: it reads and changes the service, and returns or throws.\<close>

type_synonym 'a action = "service \<Rightarrow> (error + 'a) \<times> service"

definition ret :: "'a \<Rightarrow> 'a action" where
  "ret a = (\<lambda>s. (Inr a, s))"

definition throw :: "error \<Rightarrow> 'a action" where
  "throw e = (\<lambda>s. (Inl e, s))"

definition bind :: "'a action \<Rightarrow> ('a \<Rightarrow> 'b action) \<Rightarrow> 'b action" where
  "bind m f = (\<lambda>s. case m s of (Inl e, s') \<Rightarrow> (Inl e, s') | (Inr a, s') \<Rightarrow> f a s')"

text \<open>\<^verbatim>\<open>try { m } catch (error) { h(error) }\<close>.\<close>

definition try_catch :: "'a action \<Rightarrow> (error \<Rightarrow> 'a action) \<Rightarrow> 'a action" where
  "try_catch m h = (\<lambda>s. case m s of (Inl e, s') \<Rightarrow> h e s' | (Inr a, s') \<Rightarrow> (Inr a, s'))"

text \<open>The result of a library function that may throw.\<close>

definition lift :: "error + 'a \<Rightarrow> 'a action" where
  "lift r = (\<lambda>s. (r, s))"

text \<open>An upstream call: it is recorded, and it returns or rejects as the world says.\<close>

definition upstream :: "call \<Rightarrow> string + 'a \<Rightarrow> 'a action" where
  "upstream c r = (\<lambda>s. (map_sum Rejected id r, s\<lparr>trace := trace s @ [c]\<rparr>))"

text \<open>\<^verbatim>\<open>await this.provider.method(...)\<close>: a \<^verbatim>\<open>TypeError\<close> when the provider is \<^verbatim>\<open>null\<close>.\<close>

definition via_provider :: "call \<Rightarrow> string + 'a \<Rightarrow> 'a action" where
  "via_provider c r =
     (\<lambda>s. case provider s of
            None \<Rightarrow> (Inl (TypeError ''Cannot read properties of null''), s)
          | Some url \<Rightarrow> upstream c r s)"

text \<open>\<^verbatim>\<open>new ethers.Contract(address, abi, this.provider)\<close> and a call of one of its methods:
  without a provider the contract has no runner and the call is refused.\<close>

definition via_contract :: "call \<Rightarrow> string + 'a \<Rightarrow> 'a action" where
  "via_contract c r =
     (\<lambda>s. case provider s of
            None \<Rightarrow> (Inl (LibraryError ''contract runner does not support calling''), s)
          | Some url \<Rightarrow> upstream c r s)"

text \<open>A string or \<^verbatim>\<open>null\<close> in a template literal.\<close>

definition interp :: "string option \<Rightarrow> string" where
  "interp v = (case v of None \<Rightarrow> ''null'' | Some x \<Rightarrow> x)"

text \<open>Truthiness of a string or \<^verbatim>\<open>null\<close>.\<close>

definition truthy :: "string option \<Rightarrow> bool" where
  "truthy v = (case v of None \<Rightarrow> False | Some x \<Rightarrow> x \<noteq> [])"

text \<open>\<^verbatim>\<open>a || b\<close> for a string \<open>a\<close>.\<close>

definition or_else :: "string \<Rightarrow> string \<Rightarrow> string" where
  "or_else a b = (if a = [] then b else a)"



definition hasApiKeys :: "service \<Rightarrow> bool" where
  "hasApiKeys s = (truthy (alchemyKey s) \<and> truthy (etherscanKey s))"

definition initialize :: "world \<Rightarrow> bool action" where
  "initialize w =
     try_catch
       (\<lambda>s. if \<not> hasApiKeys s then throw ApiKeysMissing s
            else
              let alchemyUrl = ''https://eth-'' @ network s @ ''.g.alchemy.com/v2/'' @ interp (alchemyKey s)
              in bind (upstream CallGetNetwork (rpc_getNetwork w)) (\<lambda>network. ret True)
                   (s\<lparr>provider := Some alchemyUrl\<rparr>))
       (\<lambda>error. throw error)"

subsection \<open>web3-service.js: the lookups\<close>

record wallet_info =
  wi_address :: string
  wi_balance :: string
  wi_balanceWei :: string
  wi_txCount :: number
  wi_blockNumber :: number

definition getWalletInfo :: "world \<Rightarrow> string \<Rightarrow> wallet_info action" where
  "getWalletInfo w address =
     bind (\<lambda>s. if provider s = None then initialize w s else ret True s)
       (\<lambda>_. try_catch
          (bind (via_provider (CallGetBalance address) (rpc_getBalance w address)) (\<lambda>balanceWei.
           bind (lift (formatEther balanceWei)) (\<lambda>balanceEth.
           bind (via_provider (CallGetTransactionCount address) (rpc_getTransactionCount w address)) (\<lambda>txCount.
           bind (via_provider CallGetBlockNumber (rpc_getBlockNumber w)) (\<lambda>blockNumber.
           ret \<lparr>wi_address = address,
                  wi_balance = toFixed (parseFloat balanceEth) 4 @ '' ETH'',
                  wi_balanceWei = show_int balanceWei,
                  wi_txCount = txCount,
                  wi_blockNumber = blockNumber\<rparr>)))))
          (\<lambda>error. throw (Error (''Failed to fetch wallet data: '' @ message error))))"

text \<open>The base URL of the indexer for the configured network.\<close>

definition baseUrl :: "service \<Rightarrow> string" where
  "baseUrl s =
     (if network s = ''mainnet'' then ''https://api.etherscan.io/v2/api''
      else ''https://api-'' @ network s @ ''.etherscan.io/v2/api'')"

text \<open>The URLs of the three requests to the indexer.\<close>

definition txlist_url :: "service \<Rightarrow> string \<Rightarrow> int \<Rightarrow> string" where
  "txlist_url s address limit =
     baseUrl s @ ''?chainid=1&module=account&action=txlist&address='' @ address
       @ ''&startblock=0&endblock=99999999&page=1&offset='' @ number_toString (Num (of_int limit))
       @ ''&sort=desc&apikey='' @ interp (etherscanKey s)"

definition tokentx_url :: "service \<Rightarrow> string \<Rightarrow> string" where
  "tokentx_url s address =
     baseUrl s @ ''?chainid=1&module=account&action=tokentx&address='' @ address
       @ ''&page=1&offset=100&sort=desc&apikey='' @ interp (etherscanKey s)"

definition sourcecode_url :: "service \<Rightarrow> string \<Rightarrow> string" where
  "sourcecode_url s address =
     baseUrl s @ ''?chainid=1&module=contract&action=getsourcecode&address='' @ address
       @ ''&apikey='' @ interp (etherscanKey s)"

record transaction =
  tx_hash :: string
  tx_from :: string
  tx_to :: string
  tx_value :: string
  tx_timestamp :: number
  tx_blockNumber :: string
  tx_isError :: bool

text \<open>The callback of \<^verbatim>\<open>data.result.map\<close>; \<^verbatim>\<open>ethers.formatEther\<close> may throw.\<close>

definition format_tx :: "raw_tx \<Rightarrow> error + transaction" where
  "format_tx tx =
     (case formatEther_string (r_value tx) of
        Inl e \<Rightarrow> Inl e
      | Inr v \<Rightarrow>
          Inr \<lparr>tx_hash = r_hash tx,
               tx_from = r_from tx,
               tx_to = or_else (r_to tx) ''Contract Creation'',
               tx_value = v @ '' ETH'',
               tx_timestamp = parseInt (r_timeStamp tx),
               tx_blockNumber = r_blockNumber tx,
               tx_isError = (r_isError tx = ''1'')\<rparr>)"

text \<open>\<^verbatim>\<open>Array.prototype.map\<close> with a callback that may throw: the first throw ends it.\<close>

fun map_throwing :: "('a \<Rightarrow> error + 'b) \<Rightarrow> 'a list \<Rightarrow> error + 'b list" where
  "map_throwing f [] = Inr []"
| "map_throwing f (x # xs) =
     (case f x of
        Inl e \<Rightarrow> Inl e
      | Inr y \<Rightarrow> (case map_throwing f xs of Inl e \<Rightarrow> Inl e | Inr ys \<Rightarrow> Inr (y # ys)))"

definition getRecentTransactions :: "world \<Rightarrow> string \<Rightarrow> int \<Rightarrow> transaction list action" where
  "getRecentTransactions w address limit =
     try_catch
       (\<lambda>s. let url = txlist_url s address limit
            in bind (upstream (CallFetch url) (fetch_txlist w url)) (\<lambda>data.
                 if status data \<noteq> ''1'' then ret []
                 else
                   (case result data of
                      Array txs \<Rightarrow> lift (map_throwing format_tx txs)
                    | _ \<Rightarrow> throw (TypeError ''data.result.map is not a function''))) s)
       (\<lambda>error. ret [])"

record token =
  contractAddress :: string
  name :: string
  symbol :: string
  decimals :: number

record holding = token +
  balance :: string
  rawBalance :: string

text \<open>The \<^verbatim>\<open>Map\<close> of the tokens seen, in insertion order, and the callback of
  \<^verbatim>\<open>data.result.forEach\<close> that fills it.\<close>

definition note_token :: "(string \<times> token) list \<Rightarrow> raw_transfer \<Rightarrow> (string \<times> token) list" where
  "note_token tokenMap tx =
     (let tokenAddress = t_contractAddress tx
      in if map_of tokenMap tokenAddress = None then
           tokenMap @ [(tokenAddress,
             \<lparr>contractAddress = tokenAddress,
              name = t_tokenName tx,
              symbol = t_tokenSymbol tx,
              decimals = parseInt (t_tokenDecimal tx)\<rparr>)]
         else tokenMap)"

text \<open>The body of the loop over the tokens: the inner \<^verbatim>\<open>try\<close> swallows every error.\<close>

definition token_balance :: "world \<Rightarrow> string \<Rightarrow> token \<Rightarrow> holding list action" where
  "token_balance w address tk =
     try_catch
       (bind (via_contract (CallBalanceOf (contractAddress tk) address)
                (erc20_balanceOf w (contractAddress tk) address)) (\<lambda>balance.
          if 0 < balance then
            bind (lift (formatUnits (uint balance) (decimals tk))) (\<lambda>formattedBalance.
              ret [token.extend tk
                (holding.fields (toFixed (parseFloat formattedBalance) 4) (show_int (uint balance)))])
          else ret []))
       (\<lambda>error. ret [])"

fun token_loop :: "world \<Rightarrow> string \<Rightarrow> token list \<Rightarrow> holding list \<Rightarrow> holding list action" where
  "token_loop w address [] tokensWithBalances = ret tokensWithBalances"
| "token_loop w address (tk # rest) tokensWithBalances =
     bind (token_balance w address tk) (\<lambda>pushed.
       token_loop w address rest (tokensWithBalances @ pushed))"

text \<open>The comparator of the final sort.\<close>

definition by_balance :: "holding \<Rightarrow> holding \<Rightarrow> number" where
  "by_balance a b = js_sub (parseFloat (balance b)) (parseFloat (balance a))"

definition getTokenBalances :: "world \<Rightarrow> string \<Rightarrow> holding list action" where
  "getTokenBalances w address =
     try_catch
       (\<lambda>s. let url = tokentx_url s address
            in bind (upstream (CallFetch url) (fetch_tokentx w url)) (\<lambda>data.
                 if status data \<noteq> ''1'' then ret []
                 else
                   (case result data of
                      Array txs \<Rightarrow>
                        let tokens = map snd (foldl note_token [] txs)
                        in bind (token_loop w address (take 10 tokens) []) (\<lambda>tokensWithBalances.
                             ret (js_sort by_balance tokensWithBalances))
                    | _ \<Rightarrow> throw (TypeError ''data.result.forEach is not a function''))) s)
       (\<lambda>error. ret [])"

record contract_info =
  ci_address :: string
  ci_name :: string
  ci_compiler :: string
  ci_verified :: bool
  ci_abi :: "string option"
  ci_sourceCode :: "string option"
  ci_constructorArguments :: "string option"

text \<open>\<^verbatim>\<open>a || null\<close> for a string \<open>a\<close>.\<close>

definition or_null :: "string \<Rightarrow> string option" where
  "or_null a = (if a = [] then None else Some a)"

text \<open>The report made from \<^verbatim>\<open>contractData = data.result[0]\<close> when that is a record.\<close>

definition contract_report :: "string \<Rightarrow> raw_source \<Rightarrow> contract_info" where
  "contract_report address contractData =
     \<lparr>ci_address = address,
      ci_name = or_else (s_ContractName contractData) ''Unknown'',
      ci_compiler = or_else (s_CompilerVersion contractData) ''Unknown'',
      ci_verified = (s_SourceCode contractData \<noteq> '''' \<and> s_SourceCode contractData \<noteq> ''0x''),
      ci_abi = (if s_ABI contractData \<noteq> ''Contract source code not verified''
                then Some (s_ABI contractData) else None),
      ci_sourceCode = or_null (s_SourceCode contractData),
      ci_constructorArguments = or_null (s_ConstructorArguments contractData)\<rparr>"

text \<open>The report made when \<^verbatim>\<open>data.result\<close> is a non-empty string: \<^verbatim>\<open>contractData\<close> is its first
  character, every field read from it is \<^verbatim>\<open>undefined\<close>, and \<^verbatim>\<open>undefined\<close> differs from every
  string it is compared with. The \<^verbatim>\<open>abi\<close> of that report is \<^verbatim>\<open>undefined\<close> where the two other
  absent fields are \<^verbatim>\<open>null\<close>; an \<^verbatim>\<open>option\<close> holds one absent value for both.\<close>

definition character_report :: "string \<Rightarrow> contract_info" where
  "character_report address =
     \<lparr>ci_address = address,
      ci_name = ''Unknown'',
      ci_compiler = ''Unknown'',
      ci_verified = True,
      ci_abi = None,
      ci_sourceCode = None,
      ci_constructorArguments = None\<rparr>"

definition getContractInfo :: "world \<Rightarrow> string \<Rightarrow> contract_info action" where
  "getContractInfo w address =
     try_catch
       (bind (via_provider (CallGetCode address) (rpc_getCode w address)) (\<lambda>code.
          if code = ''0x'' then
            throw (Error ''This address is not a smart contract (no code deployed)'')
          else
            (\<lambda>s. let url = sourcecode_url s address
                 in bind (upstream (CallFetch url) (fetch_sourcecode w url)) (\<lambda>data.
                      if status data \<noteq> ''1'' then throw (Error ''Failed to fetch contract information'')
                      else
                        (case result data of
                           Null \<Rightarrow> throw (TypeError ''Cannot read properties of null'')
                         | Other \<Rightarrow> throw (Error ''Failed to fetch contract information'')
                         | Text t \<Rightarrow>
                             if t = [] then throw (Error ''Failed to fetch contract information'')
                             else ret (character_report address)
                         | Array [] \<Rightarrow> throw (Error ''Failed to fetch contract information'')
                         | Array (contractData # _) \<Rightarrow> ret (contract_report address contractData))) s)))
       (\<lambda>error. throw error)"

record nft_info =
  ni_address :: string
  ni_name :: string
  ni_symbol :: string
  ni_totalSupply :: string
  ni_type :: string

text \<open>\<^verbatim>\<open>try { x = await m } catch { x = d }\<close>.\<close>

definition or_default :: "'a action \<Rightarrow> 'a \<Rightarrow> 'a action" where
  "or_default m d = try_catch m (\<lambda>error. ret d)"

definition getNFTInfo :: "world \<Rightarrow> string \<Rightarrow> nft_info action" where
  "getNFTInfo w address =
     try_catch
       (bind (via_provider (CallGetCode address) (rpc_getCode w address)) (\<lambda>code.
          if code = ''0x'' then throw (Error ''This address is not a smart contract'')
          else
            bind (or_default (via_contract (CallName address) (erc721_name w address)) ''Unknown'') (\<lambda>name.
            bind (or_default (via_contract (CallSymbol address) (erc721_symbol w address)) ''Unknown'') (\<lambda>symbol.
            bind (or_default
                    (bind (via_contract (CallTotalSupply address) (erc721_totalSupply w address))
                       (\<lambda>totalSupply. ret (show_int (uint totalSupply))))
                    ''Unknown'') (\<lambda>totalSupply.
            ret \<lparr>ni_address = address,
                   ni_name = name,
                   ni_symbol = symbol,
                   ni_totalSupply = totalSupply,
                   ni_type = ''ERC-721''\<rparr>)))))
       (\<lambda>error. throw error)"

definition getENSName :: "world \<Rightarrow> string \<Rightarrow> string option action" where
  "getENSName w address =
     try_catch
       (\<lambda>s. if network s \<noteq> ''mainnet'' then ret None s
            else via_provider (CallLookupAddress address) (rpc_lookupAddress w address) s)
       (\<lambda>error. ret None)"

subsection \<open>The application: one analysis\<close>

record wallet_report = wallet_info +
  ensName :: "string option"
  transactions :: "transaction list"
  tokens :: "holding list"
  firstTx :: "number option"

definition analyzeWallet :: "world \<Rightarrow> string \<Rightarrow> wallet_report action" where
  "analyzeWallet w address =
     bind (getWalletInfo w address) (\<lambda>walletInfo.
     bind (getRecentTransactions w address 10) (\<lambda>transactions.
     bind (getTokenBalances w address) (\<lambda>tokens.
     bind (getENSName w address) (\<lambda>ensName.
     ret (wallet_info.extend walletInfo
       (wallet_report.fields ensName transactions tokens
          (if 0 < length transactions
           then Some (tx_timestamp (transactions ! (length transactions - 1)))
           else None)))))))"

definition analyzeContract :: "world \<Rightarrow> string \<Rightarrow> contract_info action" where
  "analyzeContract w address = getContractInfo w address"

definition analyzeNFT :: "world \<Rightarrow> string \<Rightarrow> nft_info action" where
  "analyzeNFT w address = getNFTInfo w address"

subsection \<open>helpers.js: the prompt\<close>

text \<open>The \<^verbatim>\<open>data\<close> of \<^verbatim>\<open>generateAIPrompt\<close> is one of the three reports; the \<^verbatim>\<open>type\<close> is one of
  the three analysis types of the application, passed beside it. A field that the report
  does not have reads as \<^verbatim>\<open>undefined\<close>.\<close>

datatype report = WalletData wallet_report | ContractData contract_info | NFTData nft_info

datatype analysis_type = wallet | contract | nft

definition type_string :: "analysis_type \<Rightarrow> string" where
  "type_string t = (case t of wallet \<Rightarrow> ''wallet'' | contract \<Rightarrow> ''contract'' | nft \<Rightarrow> ''nft'')"

text \<open>\<^verbatim>\<open>String.prototype.toUpperCase\<close> on the letters \<^verbatim>\<open>a\<close> to \<^verbatim>\<open>z\<close>.\<close>

definition toUpperCase :: "string \<Rightarrow> string" where
  "toUpperCase s = map (\<lambda>c. if in_range CHR ''a'' CHR ''z'' c then char_of (of_char c - (32 :: nat)) else c) s"

text \<open>\<^verbatim>\<open>Array.prototype.join(separator)\<close>.\<close>

fun join :: "string \<Rightarrow> string list \<Rightarrow> string" where
  "join sep [] = ''''"
| "join sep [x] = x"
| "join sep (x # y # r) = x @ sep @ join sep (y # r)"

text \<open>The lines of a template literal, each ended by a line feed.\<close>

definition newline :: string where
  "newline = [CHR 0x0A]"

definition lines :: "string list \<Rightarrow> string" where
  "lines ls = concat (map (\<lambda>l. l @ newline) ls)"

text \<open>A value or \<^verbatim>\<open>undefined\<close> in a template literal.\<close>

definition or_undefined :: "string option \<Rightarrow> string" where
  "or_undefined v = (case v of None \<Rightarrow> ''undefined'' | Some x \<Rightarrow> x)"

text \<open>The falsy numbers.\<close>

definition falsy_number :: "number \<Rightarrow> bool" where
  "falsy_number v = (v = NaN \<or> v = Num 0)"

text \<open>The fields of \<^verbatim>\<open>data\<close> as the templates print them.\<close>

definition data_address :: "report \<Rightarrow> string" where
  "data_address d =
     (case d of WalletData r \<Rightarrow> wi_address r | ContractData c \<Rightarrow> ci_address c | NFTData n \<Rightarrow> ni_address n)"

definition data_balance :: "report \<Rightarrow> string" where
  "data_balance d = or_undefined (case d of WalletData r \<Rightarrow> Some (wi_balance r) | _ \<Rightarrow> None)"

definition data_txCount :: "report \<Rightarrow> string" where
  "data_txCount d =
     or_undefined (case d of WalletData r \<Rightarrow> Some (number_toString (wi_txCount r)) | _ \<Rightarrow> None)"

text \<open>\<^verbatim>\<open>data.firstTx || 'Unknown'\<close>.\<close>

definition data_firstTx :: "report \<Rightarrow> string" where
  "data_firstTx d =
     (case d of
        WalletData r \<Rightarrow>
          (case firstTx r of
             None \<Rightarrow> ''Unknown''
           | Some v \<Rightarrow> if falsy_number v then ''Unknown'' else number_toString v)
      | _ \<Rightarrow> ''Unknown'')"

definition token_line :: "holding \<Rightarrow> string" where
  "token_line token = ''- **'' @ name token @ '' ('' @ symbol token @ '')**: '' @ balance token"

definition data_tokens :: "report \<Rightarrow> string" where
  "data_tokens d =
     (case d of
        WalletData r \<Rightarrow>
          if 0 < length (tokens r) then join newline (map token_line (tokens r))
          else ''No ERC-20 tokens detected''
      | _ \<Rightarrow> ''No ERC-20 tokens detected'')"

definition tx_line :: "transaction \<times> nat \<Rightarrow> string" where
  "tx_line p =
     (case p of (tx, i) \<Rightarrow>
        number_toString (Num (of_nat i + 1)) @ ''. Hash: '' @ tx_hash tx @ '', Value: '' @ tx_value tx
          @ '', To: '' @ tx_to tx)"

text \<open>An array is truthy, the empty one too.\<close>

definition data_transactions :: "report \<Rightarrow> string" where
  "data_transactions d =
     (case d of
        WalletData r \<Rightarrow>
          (let shown = take 5 (transactions r)
           in join newline (map tx_line (zip shown [0..<length shown])))
      | _ \<Rightarrow> ''No recent transactions available'')"

definition data_name :: "report \<Rightarrow> string" where
  "data_name d =
     (case d of
        WalletData r \<Rightarrow> ''Unknown''
      | ContractData c \<Rightarrow> or_else (ci_name c) ''Unknown''
      | NFTData n \<Rightarrow> or_else (ni_name n) ''Unknown'')"

definition data_verified :: "report \<Rightarrow> string" where
  "data_verified d = (case d of ContractData c \<Rightarrow> if ci_verified c then ''Yes'' else ''No'' | _ \<Rightarrow> ''No'')"

definition data_symbol :: "report \<Rightarrow> string" where
  "data_symbol d = (case d of NFTData n \<Rightarrow> or_else (ni_symbol n) ''Unknown'' | _ \<Rightarrow> ''Unknown'')"

definition data_totalSupply :: "report \<Rightarrow> string" where
  "data_totalSupply d = (case d of NFTData n \<Rightarrow> or_else (ni_totalSupply n) ''Unknown'' | _ \<Rightarrow> ''Unknown'')"

definition wallet_section :: "report \<Rightarrow> string" where
  "wallet_section d =
     lines
       [''**Address:** '' @ data_address d,
        ''**ETH Balance:** '' @ data_balance d,
        ''**Transaction Count:** '' @ data_txCount d,
        ''**First Activity:** '' @ data_firstTx d,
        '''',
        ''## ERC-20 Token Holdings'',
        '''',
        data_tokens d,
        '''',
        ''## Analysis Tasks'',
        '''',
        ''Please analyze this Ethereum wallet and provide insights on:'',
        '''',
        ''1. **Activity Patterns**: Analyze transaction frequency, timing, and patterns'',
        ''2. **Fund Flow**: Identify major inflows/outflows and unusual transfers'',
        ''3. **Entity Classification**: Is this likely an exchange, individual, contract, or other entity?'',
        ''4. **Risk Assessment**: Flag any suspicious patterns or high-risk behaviors'',
        ''5. **Associated Addresses**: Identify frequently interacting addresses'',
        ''6. **Token Portfolio Analysis**: Evaluate the token holdings for diversification and risk'',
        ''7. **Wallet Behavior**: Based on tokens held, what type of investor/user is this?'',
        '''',
        ''## Recent Transaction Context'',
        '''',
        data_transactions d,
        '''']"

definition contract_section :: "report \<Rightarrow> string" where
  "contract_section d =
     lines
       [''**Contract Address:** '' @ data_address d,
        ''**Name:** '' @ data_name d,
        ''**Verified:** '' @ data_verified d,
        '''',
        ''## Analysis Tasks'',
        '''',
        ''Please analyze this smart contract and provide insights on:'',
        '''',
        ''1. **Contract Purpose**: What does this contract do?'',
        ''2. **Security Assessment**: Are there any known vulnerabilities or red flags?'',
        ''3. **Usage Patterns**: How active is this contract?'',
        ''4. **Token Analysis**: If this is a token contract, analyze tokenomics'',
        ''5. **Upgrade Status**: Is this contract upgradeable? Who controls it?'',
        '''']"

definition nft_section :: "report \<Rightarrow> string" where
  "nft_section d =
     lines
       [''**Collection Address:** '' @ data_address d,
        ''**Name:** '' @ data_name d,
        ''**Symbol:** '' @ data_symbol d,
        ''**Total Supply:** '' @ data_totalSupply d,
        '''',
        ''## Analysis Tasks'',
        '''',
        ''Please analyze this NFT collection and provide insights on:'',
        '''',
        ''1. **Collection Overview**: Project background and legitimacy'',
        ''2. **Market Activity**: Trading volume, floor price trends'',
        ''3. **Holder Analysis**: Distribution of ownership, whale concentration'',
        ''4. **Rarity & Traits**: Notable trait distributions if available'',
        ''5. **Contract Security**: Is the contract safe? Any mint/transfer restrictions?'',
        '''']"

text \<open>\<^verbatim>\<open>generateAIPrompt(data, type)\<close>. The timestamp is read from the clock of the world.\<close>

definition generateAIPrompt :: "world \<Rightarrow> report \<Rightarrow> analysis_type \<Rightarrow> string" where
  "generateAIPrompt w data type =
     (let timestamp = clock w;
          prompt =
            lines
              [''# Blockchain Intelligence Analysis Request'',
               '''',
               ''**Analysis Type:** '' @ toUpperCase (type_string type),
               ''**Generated:** '' @ timestamp,
               ''**Network:** Ethereum'',
               '''',
               ''---'',
               '''',
               ''## Target Information'',
               ''''];
          prompt1 =
            (if type = wallet then prompt @ wallet_section data
             else if type = contract then prompt @ contract_section data
             else if type = nft then prompt @ nft_section data
             else prompt)
      in prompt1
           @ join newline
               ['''',
                ''---'',
                '''',
                ''## Output Format'',
                '''',
                ''Please provide:'',
                ''1. **Executive Summary** (2-3 sentences)'',
                ''2. **Key Findings** (bullet points)'',
                ''3. **Risk Level** (Low/Medium/High with justification)'',
                ''4. **Recommendations** (actionable next steps)'',
                '''',
                ''**Note:** This is an automated intelligence request. Focus on factual, evidence-based analysis.''])"

subsection \<open>What the claims speak about\<close>

text \<open>The canonical address of the specification: \<^verbatim>\<open>0x\<close> and 40 hexadecimal digits,
  42 characters in all.\<close>

definition canonical_address :: "string \<Rightarrow> bool" where
  "canonical_address s =
     (length s = 42 \<and> take 2 s = ''0x'' \<and> list_all (\<lambda>c. c \<in> set ''0123456789abcdefABCDEF'') (drop 2 s))"

text \<open>The five entities of the escape map.\<close>

definition entities :: "string list" where
  "entities = [''&amp;'', ''&lt;'', ''&gt;'', ''&quot;'', ''&#39;'']"

text \<open>An entity starts at position \<open>i\<close> of \<open>s\<close>.\<close>

definition entity_at :: "string \<Rightarrow> nat \<Rightarrow> bool" where
  "entity_at s i = list_ex (\<lambda>e. take (length e) (drop i s) = e) entities"

text \<open>The configuration a request to the indexer is made from.\<close>

definition same_config :: "service \<Rightarrow> service \<Rightarrow> bool" where
  "same_config s s' = (network s' = network s \<and> etherscanKey s' = etherscanKey s)"

text \<open>The transaction lookup of \<^verbatim>\<open>analyzeWallet\<close> fails: the request is rejected (a
  transport failure) or the envelope's status is not \<^verbatim>\<open>1\<close> (a soft failure, which is also
  how the indexer reports that it has no transactions).\<close>

definition tx_lookup_fails :: "world \<Rightarrow> service \<Rightarrow> string \<Rightarrow> bool" where
  "tx_lookup_fails w s address =
     (case fetch_txlist w (txlist_url s address 10) of
        Inl m \<Rightarrow> True
      | Inr data \<Rightarrow> status data \<noteq> ''1'')"

text \<open>The chain-state connection is there or can be made.\<close>

definition connectable :: "world \<Rightarrow> service \<Rightarrow> bool" where
  "connectable w s = (provider s \<noteq> None \<or> (hasApiKeys s \<and> rpc_getNetwork w = Inr ()))"

subsection \<open>A scenario\<close>

text \<open>The scenario of the specification: the address below holds 1.5 ether and has sent
  5 transactions, it has no code, and the indexer knows no transaction and no transfer of
  it. \<open>no_keys\<close> is the service constructed over the empty \<^verbatim>\<open>localStorage\<close> of this world,
  \<open>connected_service\<close> a service with both keys and a provider.\<close>

definition vitalik :: string where
  "vitalik = ''0xd8dA6BF26964aF9D7eEd9e03E53415D37aA96045''"

definition quiet_world :: world where
  "quiet_world =
     \<lparr>clock = ''2024-01-01T00:00:00.000Z'',
      localStorage = (\<lambda>key. None),
      rpc_getNetwork = Inr (),
      rpc_getBalance = (\<lambda>a. Inr 1500000000000000000),
      rpc_getTransactionCount = (\<lambda>a. Inr (Num 5)),
      rpc_getBlockNumber = Inr (Num 19000000),
      rpc_getCode = (\<lambda>a. Inr ''0x''),
      rpc_lookupAddress = (\<lambda>a. Inr None),
      erc20_balanceOf = (\<lambda>t a. Inr 0),
      erc721_name = (\<lambda>a. Inl ''execution reverted''),
      erc721_symbol = (\<lambda>a. Inl ''execution reverted''),
      erc721_totalSupply = (\<lambda>a. Inl ''execution reverted''),
      fetch_txlist = (\<lambda>url. Inr \<lparr>status = ''0'', msg = ''No transactions found'', result = Array []\<rparr>),
      fetch_tokentx = (\<lambda>url. Inr \<lparr>status = ''0'', msg = ''No transactions found'', result = Array []\<rparr>),
      fetch_sourcecode = (\<lambda>url. Inr \<lparr>status = ''0'', msg = ''NOTOK'', result = Text ''Invalid Address format''\<rparr>)\<rparr>"




definition connected_service :: service where
  "connected_service =
     \<lparr>provider = Some ''https://eth-mainnet.g.alchemy.com/v2/demo'',
      network = ''mainnet'',
      alchemyKey = Some ''demo'',
      etherscanKey = Some ''demo'',
      trace = []\<rparr>"

subsection \<open>Numbers and holdings in the claims\<close>

text \<open>The finite doubles are integer multiples of \<open>2\<^sup>-\<^sup>1\<^sup>0\<^sup>7\<^sup>4\<close>.\<close>

definition is_double :: "rat \<Rightarrow> bool" where
  "is_double r = (\<exists>m::int. r = of_int m * pow2 (- 1074))"

text \<open>The numbers a balance can be: a non-negative double or \<^verbatim>\<open>Infinity\<close>.\<close>

definition good :: "number \<Rightarrow> bool" where
  "good v = (v = PosInf \<or> (\<exists>r. 0 \<le> r \<and> is_double r \<and> v = Num r))"

definition nonneg_number :: "number \<Rightarrow> bool" where
  "nonneg_number v = (case v of Num r \<Rightarrow> 0 \<le> r | PosInf \<Rightarrow> True | _ \<Rightarrow> False)"

text \<open>A string that starts with a decimal digit.\<close>

definition digit_led :: "string \<Rightarrow> bool" where
  "digit_led s = (case s of [] \<Rightarrow> False | c # r \<Rightarrow> is_digit c)"

text \<open>The order of the numbers; \<^verbatim>\<open>NaN\<close> is not comparable.\<close>

definition num_le :: "number \<Rightarrow> number \<Rightarrow> bool" where
  "num_le a b =
     (case a of
        NaN \<Rightarrow> False
      | NegInf \<Rightarrow> b \<noteq> NaN
      | Num x \<Rightarrow> (case b of Num y \<Rightarrow> x \<le> y | PosInf \<Rightarrow> True | _ \<Rightarrow> False)
      | PosInf \<Rightarrow> b = PosInf)"

definition num_less :: "number \<Rightarrow> number \<Rightarrow> bool" where
  "num_less a b = (num_le a b \<and> \<not> num_le b a)"

text \<open>The decimal balance of a holding: the number its \<^verbatim>\<open>balance\<close> string denotes, as the
  comparator of the sort reads it.\<close>

definition decimal_balance :: "holding \<Rightarrow> number" where
  "decimal_balance h = parseFloat (balance h)"

text \<open>What the loop pushes: the holding of a positive \<^verbatim>\<open>uint256\<close> balance, formatted.\<close>

definition held :: "holding \<Rightarrow> bool" where
  "held h = (\<exists>(b::256 word) f. 0 < b \<and> rawBalance h = show_int (uint b) \<and> digit_led f
               \<and> balance h = toFixed (parseFloat f) 4)"

text \<open>The holdings list as the specification describes it: every decimal balance
  positive, strictly descending, at most 10 entries.\<close>

definition claimed_holdings :: "holding list \<Rightarrow> bool" where
  "claimed_holdings ts =
     (list_all (\<lambda>t. positive (decimal_balance t)) ts
      \<and> sorted_wrt (\<lambda>a b. num_less (decimal_balance b) (decimal_balance a)) ts
      \<and> length ts \<le> 10)"

text \<open>A second scenario: the indexer lists transfers of three tokens with 18 decimals; the
  address holds one whole token of two of them and one smallest unit of the third.\<close>

definition transfer_of :: "string \<Rightarrow> string \<Rightarrow> string \<Rightarrow> raw_transfer" where
  "transfer_of a n sy = \<lparr>t_contractAddress = a, t_tokenName = n, t_tokenSymbol = sy, t_tokenDecimal = ''18''\<rparr>"

definition tied_world :: world where
  "tied_world =
     quiet_world
       \<lparr>erc20_balanceOf := (\<lambda>t a. if t = ''0xdddddddddddddddddddddddddddddddddddddddd'' then Inr 1 else Inr 1000000000000000000),
        fetch_tokentx := (\<lambda>url. Inr \<lparr>status = ''1'', msg = ''OK'',
           result = Array [transfer_of ''0xdddddddddddddddddddddddddddddddddddddddd'' ''Dust'' ''DST'', transfer_of ''0xaaaaaaaaaaaaaaaaaaaaaaaaaaaaaaaaaaaaaaaa'' ''Alpha'' ''AAA'',
                          transfer_of ''0xdddddddddddddddddddddddddddddddddddddddd'' ''Dust'' ''DST'', transfer_of ''0xbbbbbbbbbbbbbbbbbbbbbbbbbbbbbbbbbbbbbbbb'' ''Beta'' ''BBB'']\<rparr>)\<rparr>"

definition holding_of :: "string \<Rightarrow> string \<Rightarrow> string \<Rightarrow> string \<Rightarrow> string \<Rightarrow> holding" where
  "holding_of a n sy b raw =
     \<lparr>contractAddress = a, name = n, symbol = sy, decimals = Num 18, balance = b, rawBalance = raw\<rparr>"

section \<open>Properties of helpers.js\<close>

lemma hex_class_iff: "hex_class c \<longleftrightarrow> c \<in> set ''0123456789abcdefABCDEF''"
  by (cases c) (simp add: hex_class_def in_range_def)

lemma match_class_n_Some:
  "match_class_n cls n s = Some r \<longleftrightarrow> (n \<le> length s \<and> list_all cls (take n s) \<and> r = drop n s)"
proof (induction cls n s rule: match_class_n.induct)
  case (1 cls s)
  show ?case by auto
next
  case (2 cls n)
  show ?case by simp
next
  case (3 cls n x xs)
  then show ?case by auto
qed

lemma isValidAddress_iff: "isValidAddress s \<longleftrightarrow> canonical_address s"
proof (cases s)
  case Nil
  then show ?thesis by (simp add: isValidAddress_def canonical_address_def)
next
  case (Cons a t)
  note s1 = this
  show ?thesis
  proof (cases t)
    case Nil
    with s1 show ?thesis by (simp add: isValidAddress_def canonical_address_def)
  next
    case (Cons b r)
    have cls: "list_all hex_class xs = list_all (\<lambda>c. c \<in> set ''0123456789abcdefABCDEF'') xs" for xs
      by (induction xs) (simp_all add: hex_class_iff)
    have "isValidAddress s \<longleftrightarrow> (a = CHR ''0'' \<and> b = CHR ''x'' \<and> match_class_n hex_class 40 r = Some [])"
      using s1 Cons by (auto simp: isValidAddress_def split: option.splits)
    also have "\<dots> \<longleftrightarrow> (a = CHR ''0'' \<and> b = CHR ''x'' \<and> length r = 40 \<and> list_all hex_class r)"
      by (auto simp: match_class_n_Some)
    also have "\<dots> \<longleftrightarrow> canonical_address s"
      using s1 Cons by (auto simp: canonical_address_def cls)
    finally show ?thesis .
  qed
qed

text \<open>
  Claim C6. Every string that is not \<^verbatim>\<open>0x\<close> followed by exactly 40 hexadecimal
  characters (42 characters in all) is rejected by the address validator.
\<close>

theorem isValidAddress_rejects: "\<not> canonical_address s \<Longrightarrow> isValidAddress s = False"
  by (simp add: isValidAddress_iff)

theorem isValidAddress_rejects_witness:
  "\<not> canonical_address ''0xd8dA6BF26964aF9D7eEd9e03E53415D37aA9604g''
   \<and> isValidAddress ''0xd8dA6BF26964aF9D7eEd9e03E53415D37aA9604g'' = False"
proof -
  have h: "\<not> canonical_address ''0xd8dA6BF26964aF9D7eEd9e03E53415D37aA9604g''"
    by (simp add: canonical_address_def)
  show ?thesis using h isValidAddress_rejects [OF h] by simp
qed

subsection \<open>shortenAddress\<close>

lemma shortenAddress_falsy: "falsy_string a \<Longrightarrow> shortenAddress a startChars endChars = ''''"
  by (auto simp: falsy_string_def shortenAddress_def)

lemma shortenAddress_short:
  "int (length a) \<le> startChars + endChars \<Longrightarrow> shortenAddress (Some a) startChars endChars = a"
  by (simp add: shortenAddress_def)

lemma shortenAddress_long:
  assumes "0 \<le> startChars" and "0 < endChars" and "startChars + endChars < int (length a)"
  shows "shortenAddress (Some a) startChars endChars =
           take (nat startChars) a @ ''...'' @ drop (length a - nat endChars) a"
proof -
  from assms have ne: "a \<noteq> []" by auto
  from assms have i1: "js_index (length a) startChars = nat startChars"
    by (simp add: js_index_def)
  from assms have i2: "js_index (length a) (- endChars) = length a - nat endChars"
    by (simp add: js_index_def)
  have i0: "js_index (length a) 0 = 0" and i3: "js_index (length a) (int (length a)) = length a"
    by (simp_all add: js_index_def)
  from assms ne show ?thesis
    by (simp add: shortenAddress_def js_slice_def js_slice_from_def Let_def i0 i1 i2 i3)
qed

text \<open>
  Claim C9. \<^verbatim>\<open>shortenAddress\<close> returns the empty string for a falsy input
  (\<open>shortenAddress_falsy\<close>) and the input itself when it has at most
  \<^verbatim>\<open>startChars + endChars\<close> characters (\<open>shortenAddress_short\<close>); otherwise it is claimed to
  return the first \<^verbatim>\<open>startChars\<close> characters, three dots and the last \<^verbatim>\<open>endChars\<close>
  characters. That holds when \<^verbatim>\<open>endChars\<close> is positive (\<open>shortenAddress_long\<close>). With
  \<^verbatim>\<open>endChars = 0\<close> the source evaluates \<^verbatim>\<open>address.slice(-0)\<close>, which is \<^verbatim>\<open>address.slice(0)\<close>,
  the whole string: the result ends with the whole address and not with its last zero
  characters.
\<close>

theorem shortenAddress_zero_endChars:
  "shortenAddress (Some ''0x1234567890abcdef'') 6 0 = ''0x1234...0x1234567890abcdef''"
  by (simp add: shortenAddress_def js_slice_def js_slice_from_def js_index_def)

subsection \<open>escapeHTML\<close>

lemma escapeHTML_concat: "escapeHTML s = concat (map esc s)"
  by (simp add: escapeHTML_def js_replace_class_def esc_def [abs_def])

lemma esc_cases:
  "esc c = [c] \<and> c \<notin> {CHR ''&'', CHR ''<'', CHR ''>'', CHR 0x22, CHR 0x27} \<or> esc c \<in> set entities"
  by (simp add: esc_def html_class_def escapeMap_def entities_def)

lemma entity_chars:
  "e \<in> set entities \<Longrightarrow>
     CHR ''<'' \<notin> set e \<and> CHR ''>'' \<notin> set e \<and> CHR 0x22 \<notin> set e \<and> CHR 0x27 \<notin> set e"
  by (auto simp: entities_def)

lemma entity_amp: "e \<in> set entities \<Longrightarrow> i < length e \<Longrightarrow> e ! i = CHR ''&'' \<Longrightarrow> i = 0"
  by (auto simp: entities_def nth_Cons' split: if_splits)

lemma esc_no_special:
  "CHR ''<'' \<notin> set (esc c) \<and> CHR ''>'' \<notin> set (esc c) \<and> CHR 0x22 \<notin> set (esc c) \<and> CHR 0x27 \<notin> set (esc c)"
  using esc_cases [of c] entity_chars [of "esc c"] by auto

lemma entity_at_iff: "entity_at s i \<longleftrightarrow> (\<exists>e \<in> set entities. take (length e) (drop i s) = e)"
  by (simp add: entity_at_def list_ex_iff)

lemma amp_entity:
  "i < length (concat (map esc s)) \<Longrightarrow> concat (map esc s) ! i = CHR ''&'' \<Longrightarrow>
     entity_at (concat (map esc s)) i"
proof (induction s arbitrary: i)
  case Nil
  then show ?case by simp
next
  case (Cons c cs)
  let ?r = "concat (map esc cs)"
  show ?case
  proof (cases "i < length (esc c)")
    case True
    with Cons.prems have amp: "esc c ! i = CHR ''&''" by (simp add: nth_append)
    from esc_cases [of c] show ?thesis
    proof
      assume "esc c = [c] \<and> c \<notin> {CHR ''&'', CHR ''<'', CHR ''>'', CHR 0x22, CHR 0x27}"
      with True amp show ?thesis by simp
    next
      assume e: "esc c \<in> set entities"
      with True amp have "i = 0" by (rule_tac entity_amp)
      with e show ?thesis by (auto simp: entity_at_iff intro!: bexI [of _ "esc c"])
    qed
  next
    case False
    with Cons.prems have "i - length (esc c) < length ?r" "?r ! (i - length (esc c)) = CHR ''&''"
      by (auto simp: nth_append)
    then have "entity_at ?r (i - length (esc c))" by (rule Cons.IH)
    with False show ?thesis by (auto simp: entity_at_iff)
  qed
qed

text \<open>
  Claim C10. For every input string, the output of \<^verbatim>\<open>escapeHTML\<close> has no \<^verbatim>\<open><\<close>, no
  \<^verbatim>\<open>>\<close>, no double quote and no single quote, and every \<^verbatim>\<open>&\<close> of the output is the first
  character of one of the five entities of the escape map.
\<close>

theorem escapeHTML_output:
  "CHR ''<'' \<notin> set (escapeHTML s) \<and> CHR ''>'' \<notin> set (escapeHTML s)
   \<and> CHR 0x22 \<notin> set (escapeHTML s) \<and> CHR 0x27 \<notin> set (escapeHTML s)
   \<and> (\<forall>i < length (escapeHTML s). escapeHTML s ! i = CHR ''&'' \<longrightarrow> entity_at (escapeHTML s) i)"
  unfolding escapeHTML_concat using esc_no_special amp_entity by auto

theorem escapeHTML_output_witness:
  "escapeHTML ''<b>&'' = ''&lt;b&gt;&amp;''
   \<and> 9 < length (escapeHTML ''<b>&'') \<and> escapeHTML ''<b>&'' ! 9 = CHR ''&''
   \<and> entity_at (escapeHTML ''<b>&'') 9"
proof -
  have out: "escapeHTML ''<b>&'' = ''&lt;b&gt;&amp;''"
    by (simp add: escapeHTML_def js_replace_class_def html_class_def escapeMap_def)
  have pos: "9 < length (escapeHTML ''<b>&'')" and amp: "escapeHTML ''<b>&'' ! 9 = CHR ''&''"
    by (simp_all add: out)
  from escapeHTML_output [of "''<b>&''"] pos amp have "entity_at (escapeHTML ''<b>&'') 9"
    by blast
  with out pos amp show ?thesis by simp
qed

section \<open>Properties of the Web3 service\<close>

subsection \<open>Actions\<close>

lemma try_catch_ret_total: "\<exists>a s'. try_catch m (\<lambda>error. ret d) s = (Inr a, s')"
  by (cases "m s" rule: prod.exhaust) (auto simp: try_catch_def ret_def split: sum.splits prod.splits)

lemma same_config_trans: "same_config a b \<Longrightarrow> same_config b c \<Longrightarrow> same_config a c"
  by (simp add: same_config_def)

lemma simple_config:
  "same_config s (snd (ret a s))" "same_config s (snd (throw e s))" "same_config s (snd (lift r s))"
  by (simp_all add: ret_def throw_def lift_def same_config_def)

lemma via_provider_config: "same_config s (snd (via_provider c r s))"
  by (auto simp: same_config_def via_provider_def upstream_def split: option.splits)

lemma bind_config:
  assumes "\<And>s. same_config s (snd (m s))" and "\<And>a s. same_config s (snd (f a s))"
  shows "same_config s (snd (bind m f s))"
proof (cases "m s")
  case (Pair r s')
  with assms(1) [of s] have 1: "same_config s s'" by simp
  show ?thesis
  proof (cases r)
    case (Inl e)
    with Pair 1 show ?thesis by (simp add: bind_def)
  next
    case (Inr a)
    with Pair have "bind m f s = f a s'" by (simp add: bind_def)
    with 1 assms(2) [of s' a] show ?thesis by (auto intro: same_config_trans)
  qed
qed

lemma try_catch_config:
  assumes "\<And>s. same_config s (snd (m s))" and "\<And>e s. same_config s (snd (h e s))"
  shows "same_config s (snd (try_catch m h s))"
proof (cases "m s")
  case (Pair r s')
  with assms(1) [of s] have 1: "same_config s s'" by simp
  show ?thesis
  proof (cases r)
    case (Inl e)
    with Pair have "try_catch m h s = h e s'" by (simp add: try_catch_def)
    with 1 assms(2) [of s' e] show ?thesis by (auto intro: same_config_trans)
  next
    case (Inr a)
    with Pair 1 show ?thesis by (simp add: try_catch_def)
  qed
qed

subsection \<open>initialize\<close>

lemma initialize_no_keys: "\<not> hasApiKeys s \<Longrightarrow> initialize w s = (Inl ApiKeysMissing, s)"
  by (simp add: initialize_def try_catch_def throw_def)

lemma initialize_keys:
  "hasApiKeys s \<Longrightarrow>
     initialize w s =
       (map_sum Rejected (\<lambda>_. True) (rpc_getNetwork w),
        s\<lparr>provider := Some (''https://eth-'' @ network s @ ''.g.alchemy.com/v2/'' @ interp (alchemyKey s)),
          trace := trace s @ [CallGetNetwork]\<rparr>)"
  by (cases "rpc_getNetwork w")
     (simp_all add: initialize_def try_catch_def throw_def bind_def upstream_def ret_def Let_def)

lemma initialize_config: "same_config s (snd (initialize w s))"
  by (cases "hasApiKeys s") (simp_all add: initialize_no_keys initialize_keys same_config_def)






subsection \<open>getENSName\<close>

text \<open>
  Claim C7. When the configured network is not the main network, \<^verbatim>\<open>getENSName\<close> returns
  \<^verbatim>\<open>null\<close> and leaves the service as it was: no call is made to the provider. On the main
  network a lookup that fails, or a provider that is missing, gives \<^verbatim>\<open>null\<close> as well.
\<close>

theorem getENSName_absent:
  "(network s \<noteq> ''mainnet'' \<longrightarrow> getENSName w address s = (Inr None, s))
   \<and> (network s = ''mainnet'' \<and> (provider s = None \<or> (\<exists>m. rpc_lookupAddress w address = Inl m))
        \<longrightarrow> fst (getENSName w address s) = Inr None)"
  by (auto simp: getENSName_def try_catch_def ret_def via_provider_def upstream_def split: option.splits)

theorem getENSName_absent_witness:
  "network (connected_service\<lparr>network := ''sepolia''\<rparr>) \<noteq> ''mainnet''
   \<and> getENSName quiet_world vitalik (connected_service\<lparr>network := ''sepolia''\<rparr>)
       = (Inr None, connected_service\<lparr>network := ''sepolia''\<rparr>)
   \<and> network connected_service = ''mainnet''
   \<and> rpc_lookupAddress (quiet_world\<lparr>rpc_lookupAddress := \<lambda>a. Inl ''timeout''\<rparr>) vitalik = Inl ''timeout''
   \<and> fst (getENSName (quiet_world\<lparr>rpc_lookupAddress := \<lambda>a. Inl ''timeout''\<rparr>) vitalik connected_service) = Inr None"
proof -
  have 1: "network (connected_service\<lparr>network := ''sepolia''\<rparr>) \<noteq> ''mainnet''" by simp
  have 2: "network connected_service = ''mainnet''" by (simp add: connected_service_def)
  have 3: "rpc_lookupAddress (quiet_world\<lparr>rpc_lookupAddress := \<lambda>a. Inl ''timeout''\<rparr>) vitalik = Inl ''timeout''"
    by simp
  from getENSName_absent [of "connected_service\<lparr>network := ''sepolia''\<rparr>" quiet_world vitalik] 1
  have 4: "getENSName quiet_world vitalik (connected_service\<lparr>network := ''sepolia''\<rparr>)
       = (Inr None, connected_service\<lparr>network := ''sepolia''\<rparr>)" by blast
  from getENSName_absent [of connected_service "quiet_world\<lparr>rpc_lookupAddress := \<lambda>a. Inl ''timeout''\<rparr>" vitalik] 2 3
  have 5: "fst (getENSName (quiet_world\<lparr>rpc_lookupAddress := \<lambda>a. Inl ''timeout''\<rparr>) vitalik connected_service) = Inr None"
    by blast
  from 1 2 3 4 5 show ?thesis by blast
qed

subsection \<open>getContractInfo and getNFTInfo\<close>

text \<open>
  Claim C4. For every address (a valid one in particular) whose code the provider returns
  as \<^verbatim>\<open>0x\<close>, the contract analysis and the NFT analysis both throw the "not a smart contract"
  error; neither returns a report, and neither asks the indexer or the contract.
\<close>

theorem not_a_contract:
  assumes "provider s = Some url" and "rpc_getCode w address = Inr ''0x''"
  shows "analyzeContract w address s =
           (Inl (Error ''This address is not a smart contract (no code deployed)''),
            s\<lparr>trace := trace s @ [CallGetCode address]\<rparr>)
         \<and> analyzeNFT w address s =
           (Inl (Error ''This address is not a smart contract''),
            s\<lparr>trace := trace s @ [CallGetCode address]\<rparr>)"
  using assms
  by (simp add: analyzeContract_def analyzeNFT_def getContractInfo_def getNFTInfo_def try_catch_def
      bind_def via_provider_def upstream_def throw_def)

theorem not_a_contract_witness:
  "isValidAddress vitalik
   \<and> rpc_getCode quiet_world vitalik = Inr ''0x''
   \<and> fst (analyzeContract quiet_world vitalik connected_service)
       = Inl (Error ''This address is not a smart contract (no code deployed)'')
   \<and> fst (analyzeNFT quiet_world vitalik connected_service) = Inl (Error ''This address is not a smart contract'')"
proof -
  have v: "isValidAddress vitalik"
    by (simp add: isValidAddress_iff canonical_address_def vitalik_def)
  have p: "provider connected_service = Some ''https://eth-mainnet.g.alchemy.com/v2/demo''"
    by (simp add: connected_service_def)
  have c: "rpc_getCode quiet_world vitalik = Inr ''0x''"
    by (simp add: quiet_world_def)
  from not_a_contract [OF p c] v c show ?thesis by simp
qed

subsection \<open>getWalletInfo\<close>

lemma formatEther_example: "formatEther 1500000000000000000 = Inr ''1.5''"
  by code_simp

lemma toFixed_example: "toFixed (parseFloat ''1.5'') 4 = ''1.5000''"
  by code_simp

lemma show_int_example: "show_int 1500000000000000000 = ''1500000000000000000''"
  by code_simp

lemma ensure_provider:
  assumes "connectable w s"
  shows "\<exists>s1. (if provider s = None then initialize w s else ret True s) = (Inr True, s1)
           \<and> provider s1 \<noteq> None"
  using assms
  by (auto simp: connectable_def ret_def initialize_def try_catch_def bind_def upstream_def Let_def)

lemma getWalletInfo_config: "same_config s (snd (getWalletInfo w address s))"
  unfolding getWalletInfo_def
  by (intro bind_config try_catch_config via_provider_config simple_config)
     (auto simp: initialize_config simple_config)

lemma getWalletInfo_value:
  assumes "connectable w s"
    and "rpc_getBalance w address = Inr v"
    and "formatEther v = Inr balanceEth"
    and "rpc_getTransactionCount w address = Inr n"
    and "rpc_getBlockNumber w = Inr b"
  shows "\<exists>s'. getWalletInfo w address s =
           (Inr \<lparr>wi_address = address, wi_balance = toFixed (parseFloat balanceEth) 4 @ '' ETH'',
                 wi_balanceWei = show_int v, wi_txCount = n, wi_blockNumber = b\<rparr>, s')"
proof -
  from ensure_provider [OF assms(1)] obtain s1 where
    1: "(if provider s = None then initialize w s else ret True s) = (Inr True, s1)"
    and 2: "provider s1 \<noteq> None" by blast
  from 2 obtain url where 3: "provider s1 = Some url" by auto
  show ?thesis
    unfolding getWalletInfo_def
    by (simp add: bind_def 1 try_catch_def via_provider_def 3 upstream_def assms(2,3,4,5) lift_def ret_def)
qed

text \<open>
  Claim C5. For the balance 1500000000000000000 in the smallest unit, 18 decimal places,
  \<^verbatim>\<open>getWalletInfo\<close> gives the display balance \<^verbatim>\<open>1.5000 ETH\<close>, four decimals, and beside it the
  raw integer as the string of its digits, unchanged.
\<close>

theorem balance_normalization:
  assumes "connectable w s"
    and "rpc_getBalance w address = Inr 1500000000000000000"
    and "rpc_getTransactionCount w address = Inr n"
    and "rpc_getBlockNumber w = Inr b"
  shows "\<exists>s'. getWalletInfo w address s =
           (Inr \<lparr>wi_address = address, wi_balance = ''1.5000 ETH'',
                 wi_balanceWei = ''1500000000000000000'', wi_txCount = n, wi_blockNumber = b\<rparr>, s')"
  using getWalletInfo_value [OF assms(1,2) formatEther_example assms(3,4)]
  by (simp add: toFixed_example show_int_example)

lemma scenario_facts:
  "connectable quiet_world connected_service"
  "rpc_getBalance quiet_world vitalik = Inr 1500000000000000000"
  "rpc_getTransactionCount quiet_world vitalik = Inr (Num 5)"
  "rpc_getBlockNumber quiet_world = Inr (Num 19000000)"
  by (simp_all add: connectable_def connected_service_def quiet_world_def)

theorem balance_normalization_witness:
  "connectable quiet_world connected_service
   \<and> rpc_getBalance quiet_world vitalik = Inr 1500000000000000000
   \<and> (\<exists>s'. getWalletInfo quiet_world vitalik connected_service =
           (Inr \<lparr>wi_address = vitalik, wi_balance = ''1.5000 ETH'',
                 wi_balanceWei = ''1500000000000000000'', wi_txCount = Num 5,
                 wi_blockNumber = Num 19000000\<rparr>, s'))"
  using balance_normalization [OF scenario_facts] scenario_facts(1,2) by blast

subsection \<open>The transaction lookup\<close>

lemma txlist_url_config: "same_config s s' \<Longrightarrow> txlist_url s' address limit = txlist_url s address limit"
  by (simp add: same_config_def txlist_url_def baseUrl_def)

lemma getTokenBalances_total: "\<exists>a s'. getTokenBalances w address s = (Inr a, s')"
  unfolding getTokenBalances_def by (rule try_catch_ret_total)

lemma getENSName_total: "\<exists>a s'. getENSName w address s = (Inr a, s')"
  unfolding getENSName_def by (rule try_catch_ret_total)

lemma getRecentTransactions_total: "\<exists>a s'. getRecentTransactions w address limit s = (Inr a, s')"
  unfolding getRecentTransactions_def by (rule try_catch_ret_total)

lemma getRecentTransactions_fails:
  assumes "tx_lookup_fails w s address"
  shows "getRecentTransactions w address 10 s =
           (Inr [], s\<lparr>trace := trace s @ [CallFetch (txlist_url s address 10)]\<rparr>)"
  using assms
  by (auto simp: tx_lookup_fails_def getRecentTransactions_def try_catch_def bind_def upstream_def
      ret_def Let_def split: sum.splits)

text \<open>
  Claim C3. When the transaction lookup of a wallet analysis fails, softly (a status other
  than \<^verbatim>\<open>1\<close>) or in transport, the lookup itself returns the empty list, in the same way for
  both failures; the analysis returns a report whenever the chain-state lookup
  \<^verbatim>\<open>getWalletInfo\<close> does, with no recent transactions and no first activity; and if the
  analysis throws at all, it throws the error of \<^verbatim>\<open>getWalletInfo\<close>, never one of the indexer.
\<close>

theorem wallet_survives_tx_lookup_failure:
  assumes "tx_lookup_fails w s address"
  shows "getRecentTransactions w address 10 s =
           (Inr [], s\<lparr>trace := trace s @ [CallFetch (txlist_url s address 10)]\<rparr>)
         \<and> (\<forall>info s1. getWalletInfo w address s = (Inr info, s1) \<longrightarrow>
               (\<exists>r s'. analyzeWallet w address s = (Inr r, s') \<and> transactions r = [] \<and> firstTx r = None
                  \<and> wallet_info.truncate r = info))
         \<and> (\<forall>e. fst (analyzeWallet w address s) = Inl e \<longrightarrow> fst (getWalletInfo w address s) = Inl e)"
proof -
  have ok: "\<exists>r s'. analyzeWallet w address s = (Inr r, s') \<and> transactions r = [] \<and> firstTx r = None
                  \<and> wallet_info.truncate r = info"
    if gw: "getWalletInfo w address s = (Inr info, s1)" for info s1
  proof -
    from getWalletInfo_config [of s w address] gw have "same_config s s1" by simp
    then have "txlist_url s1 address 10 = txlist_url s address 10" by (rule txlist_url_config)
    with assms have "tx_lookup_fails w s1 address" by (simp add: tx_lookup_fails_def)
    then have tx: "getRecentTransactions w address 10 s1 =
        (Inr [], s1\<lparr>trace := trace s1 @ [CallFetch (txlist_url s1 address 10)]\<rparr>)"
      by (rule getRecentTransactions_fails)
    define s2 where "s2 = s1\<lparr>trace := trace s1 @ [CallFetch (txlist_url s1 address 10)]\<rparr>"
    obtain tokens s3 where tk: "getTokenBalances w address s2 = (Inr tokens, s3)"
      using getTokenBalances_total by blast
    obtain ens s4 where en: "getENSName w address s3 = (Inr ens, s4)"
      using getENSName_total by blast
    from gw tx tk en show ?thesis
      by (simp add: analyzeWallet_def bind_def ret_def s2_def wallet_info.defs wallet_report.defs)
  qed
  have bad: "fst (getWalletInfo w address s) = Inl e" if "fst (analyzeWallet w address s) = Inl e" for e
  proof (cases "getWalletInfo w address s")
    case (Pair r s1)
    show ?thesis
    proof (cases r)
      case (Inl e')
      with Pair that show ?thesis by (simp add: analyzeWallet_def bind_def)
    next
      case (Inr info)
      with Pair ok that show ?thesis by fastforce
    qed
  qed
  from getRecentTransactions_fails [OF assms] ok bad show ?thesis by blast
qed

theorem wallet_survives_tx_lookup_failure_witness:
  "tx_lookup_fails quiet_world connected_service vitalik
   \<and> tx_lookup_fails (quiet_world\<lparr>fetch_txlist := \<lambda>url. Inl ''Failed to fetch''\<rparr>) connected_service vitalik
   \<and> fst (getRecentTransactions quiet_world vitalik 10 connected_service) = Inr []
   \<and> fst (getRecentTransactions (quiet_world\<lparr>fetch_txlist := \<lambda>url. Inl ''Failed to fetch''\<rparr>) vitalik 10
        connected_service) = Inr []
   \<and> (\<exists>r s'. analyzeWallet quiet_world vitalik connected_service = (Inr r, s')
         \<and> transactions r = [] \<and> firstTx r = None \<and> wi_balance r = ''1.5000 ETH'')"
proof -
  have soft: "tx_lookup_fails quiet_world connected_service vitalik"
    by (simp add: tx_lookup_fails_def quiet_world_def)
  have hard: "tx_lookup_fails (quiet_world\<lparr>fetch_txlist := \<lambda>url. Inl ''Failed to fetch''\<rparr>) connected_service vitalik"
    by (simp add: tx_lookup_fails_def)
  from getWalletInfo_value [OF scenario_facts(1,2) formatEther_example scenario_facts(3,4)]
  obtain s1 where
    gw: "getWalletInfo quiet_world vitalik connected_service =
           (Inr \<lparr>wi_address = vitalik, wi_balance = ''1.5000 ETH'',
                 wi_balanceWei = ''1500000000000000000'', wi_txCount = Num 5,
                 wi_blockNumber = Num 19000000\<rparr>, s1)"
    by (auto simp: toFixed_example show_int_example)
  from wallet_survives_tx_lookup_failure [OF soft] gw obtain r s' where
    r: "analyzeWallet quiet_world vitalik connected_service = (Inr r, s')" "transactions r = []" "firstTx r = None"
      "wallet_info.truncate r = \<lparr>wi_address = vitalik, wi_balance = ''1.5000 ETH'',
                 wi_balanceWei = ''1500000000000000000'', wi_txCount = Num 5,
                 wi_blockNumber = Num 19000000\<rparr>" by blast
  from r(4) have "wi_balance r = ''1.5000 ETH''"
    by (cases r) (simp add: wallet_info.defs)
  with r wallet_survives_tx_lookup_failure [OF soft] wallet_survives_tx_lookup_failure [OF hard] soft hard
  show ?thesis by simp
qed

subsection \<open>generateAIPrompt\<close>

text \<open>
  Claim C1. The prompt is a function of the report, the analysis type and the timestamp
  alone: two calls with the same report and type, in any two worlds whose clocks read the
  same timestamp, return the same string.
\<close>

theorem generateAIPrompt_deterministic:
  "clock w = clock w' \<Longrightarrow> generateAIPrompt w data type = generateAIPrompt w' data type"
  by (simp add: generateAIPrompt_def)

theorem generateAIPrompt_deterministic_witness:
  "clock quiet_world = clock (quiet_world\<lparr>rpc_getNetwork := Inl ''offline'', localStorage := \<lambda>k. Some ''x''\<rparr>)
   \<and> generateAIPrompt quiet_world
         (NFTData \<lparr>ni_address = vitalik, ni_name = ''Punks'', ni_symbol = ''PNK'',
                    ni_totalSupply = ''Unknown'', ni_type = ''ERC-721''\<rparr>) nft
       = generateAIPrompt (quiet_world\<lparr>rpc_getNetwork := Inl ''offline'', localStorage := \<lambda>k. Some ''x''\<rparr>)
         (NFTData \<lparr>ni_address = vitalik, ni_name = ''Punks'', ni_symbol = ''PNK'',
                    ni_totalSupply = ''Unknown'', ni_type = ''ERC-721''\<rparr>) nft"
proof -
  have c: "clock quiet_world
        = clock (quiet_world\<lparr>rpc_getNetwork := Inl ''offline'', localStorage := \<lambda>k. Some ''x''\<rparr>)"
    by simp
  from generateAIPrompt_deterministic [OF c] c show ?thesis by blast
qed

section \<open>Properties of the token balances\<close>

subsection \<open>Digits\<close>

lemma digit_char_is_digit: "0 \<le> d \<Longrightarrow> d < 10 \<Longrightarrow> is_digit (digit_char d)"
proof -
  assume "0 \<le> d" "d < 10"
  then have "d = 0 \<or> d = 1 \<or> d = 2 \<or> d = 3 \<or> d = 4 \<or> d = 5 \<or> d = 6 \<or> d = 7 \<or> d = 8 \<or> d = 9"
    by arith
  then show ?thesis
    by (auto simp: digit_char_def is_digit_def in_range_def)
qed

lemma digit_val_digit_char: "0 \<le> d \<Longrightarrow> d < 10 \<Longrightarrow> digit_val (digit_char d) = d"
proof -
  assume "0 \<le> d" "d < 10"
  then have "d = 0 \<or> d = 1 \<or> d = 2 \<or> d = 3 \<or> d = 4 \<or> d = 5 \<or> d = 6 \<or> d = 7 \<or> d = 8 \<or> d = 9"
    by arith
  then show ?thesis
    by (auto simp: digit_char_def digit_val_def)
qed

lemma digit_char_neg: "d \<le> 0 \<Longrightarrow> digit_char d = CHR ''0''"
  by (simp add: digit_char_def)

lemma show_nat_digits: "show_nat n \<noteq> [] \<and> list_all is_digit (show_nat n)"
proof (induction n rule: show_nat.induct)
  case (1 n)
  show ?case
  proof (cases "n < 10")
    case True
    have "is_digit (digit_char n)"
    proof (cases "0 \<le> n")
      case True
      with \<open>n < 10\<close> show ?thesis by (simp add: digit_char_is_digit)
    next
      case False
      then show ?thesis by (simp add: digit_char_neg is_digit_def in_range_def)
    qed
    with True show ?thesis by (simp add: show_nat.simps [of n])
  next
    case False
    then have "is_digit (digit_char (n mod 10))" by (intro digit_char_is_digit) auto
    with False 1 show ?thesis by (simp add: show_nat.simps [of n])
  qed
qed

lemma digits_val_snoc: "digits_val (ds @ [c]) = 10 * digits_val ds + digit_val c"
  by (simp add: digits_val_def)

lemma digits_val_show_nat: "0 \<le> n \<Longrightarrow> digits_val (show_nat n) = n"
proof (induction n rule: show_nat.induct)
  case (1 n)
  show ?case
  proof (cases "n < 10")
    case True
    with 1 show ?thesis by (simp add: show_nat.simps [of n] digits_val_def digit_val_digit_char)
  next
    case False
    with 1 have "digits_val (show_nat (n div 10)) = n div 10" by simp
    moreover have "digit_val (digit_char (n mod 10)) = n mod 10" by (intro digit_val_digit_char) auto
    ultimately show ?thesis using False by (simp add: show_nat.simps [of n] digits_val_snoc)
  qed
qed

subsection \<open>Rounding to a double\<close>

lemma ndigits_bounds:
  "2 \<le> b \<Longrightarrow> 0 < n \<Longrightarrow> b ^ (ndigits b n - 1) \<le> n \<and> n < b ^ ndigits b n"
proof (induction b n rule: ndigits.induct)
  case (1 b n)
  show ?case
  proof (cases "n < b")
    case True
    with 1(2,3) show ?thesis by (simp add: ndigits.simps [of b n])
  next
    case False
    with 1(2) have pos: "0 < n div b"
      by (simp add: pos_imp_zdiv_pos_iff)
    with 1 False have ih: "b ^ (ndigits b (n div b) - 1) \<le> n div b" "n div b < b ^ ndigits b (n div b)"
      by auto
    have nd: "ndigits b n = Suc (ndigits b (n div b))"
      using False 1(2) by (simp add: ndigits.simps [of b n])
    have pos': "0 < ndigits b (n div b)" by (simp add: ndigits.simps [of b "n div b"])
    have "b ^ (ndigits b n - 1) = b * b ^ (ndigits b (n div b) - 1)"
      using nd pos' by (cases "ndigits b (n div b)") simp_all
    also have "\<dots> \<le> b * (n div b)" using ih(1) 1(2) by (simp add: mult_left_mono)
    also have "\<dots> \<le> n"
    proof -
      have "b * (n div b) = n - n mod b" by (simp add: minus_mod_eq_mult_div)
      moreover have "0 \<le> n mod b" using 1(2) by simp
      ultimately show ?thesis by simp
    qed
    finally have lo: "b ^ (ndigits b n - 1) \<le> n" .
    have "n div b + 1 \<le> b ^ ndigits b (n div b)" using ih(2) by simp
    then have "b * (n div b + 1) \<le> b * b ^ ndigits b (n div b)" using 1(2) by (simp add: mult_left_mono)
    moreover have "n < b * (n div b + 1)"
    proof -
      have "b * (n div b) = n - n mod b" by (simp add: minus_mod_eq_mult_div)
      moreover have "n mod b < b" using 1(2) by simp
      ultimately show ?thesis by (simp add: distrib_left)
    qed
    ultimately have hi: "n < b ^ ndigits b n" using nd by simp
    from lo hi show ?thesis by simp
  qed
qed

lemma pow2_powi: "pow2 e = 2 powi e"
  by (simp add: pow2_def power_int_def field_simps)

lemma bpow2: "bpow 2 k = pow2 k"
  by (simp add: bpow_def pow2_def)

lemma pow2_pos: "0 < pow2 e"
  by (simp add: pow2_powi)

lemma pow2_add: "pow2 (a + b) = pow2 a * pow2 b"
  by (simp add: pow2_powi power_int_add)

lemma pow2_diff: "pow2 (a - b) = pow2 a / pow2 b"
  by (simp add: pow2_powi power_int_diff)

lemma pow2_mono: "a \<le> b \<Longrightarrow> pow2 a \<le> pow2 b"
  by (simp add: pow2_powi power_int_increasing)

lemma pow2_nat: "pow2 (int n) = 2 ^ n"
  by (simp add: pow2_def)

lemma flog2_le:
  assumes "0 < q"
  shows "pow2 (flog 2 q) \<le> q"
proof -
  obtain n d where qd: "quotient_of q = (n, d)" by (cases "quotient_of q")
  then have d: "0 < d" and q: "q = of_int n / of_int d"
    using quotient_of_denom_pos quotient_of_div by auto
  from assms q d have n: "0 < n" by (simp add: zero_less_divide_iff)
  define k where "k = int (ndigits 2 n) - int (ndigits 2 d)"
  have fl: "flog 2 q = (if pow2 k \<le> q then k else k - 1)"
    by (simp add: flog_def qd k_def bpow2 Let_def)
  have nb: "(2::int) ^ (ndigits 2 n - 1) \<le> n" using ndigits_bounds [of 2 n] n by simp
  have db: "d < (2::int) ^ ndigits 2 d" using ndigits_bounds [of 2 d] d by simp
  have np: "0 < ndigits 2 n" by (simp add: ndigits.simps [of 2 n])
  have "pow2 (k - 1) = pow2 (int (ndigits 2 n - 1)) / pow2 (int (ndigits 2 d))"
    using np by (simp add: k_def pow2_diff [symmetric] of_nat_diff algebra_simps)
  also have "\<dots> = of_int (2 ^ (ndigits 2 n - 1)) / of_int (2 ^ ndigits 2 d)"
    by (simp add: pow2_nat)
  also have "\<dots> \<le> of_int n / of_int (2 ^ ndigits 2 d)"
    using nb by (intro divide_right_mono) (simp_all del: of_int_power)
  also have "\<dots> \<le> of_int n / of_int d"
    using db d n by (intro divide_left_mono) (simp_all del: of_int_power add: less_imp_le)
  finally have "pow2 (k - 1) \<le> q" using q by simp
  with fl show ?thesis by simp
qed

lemma round_half_even_ge: "of_int i \<le> q \<Longrightarrow> i \<le> round_half_even q"
proof -
  assume "of_int i \<le> q"
  then have "i \<le> \<lfloor>q\<rfloor>" by (simp add: le_floor_iff)
  then show ?thesis by (auto simp: round_half_even_def Let_def)
qed

lemma to_double_pos_cases:
  assumes "0 < q"
  shows "to_double q = PosInf \<or> (\<exists>m::int. 0 \<le> m \<and> to_double q = Num (of_int m * pow2 (- 1074)))"
proof -
  define e where "e = max (flog 2 q - 52) (- 1074)"
  define M where "M = round_half_even (q / pow2 e)"
  have e: "- 1074 \<le> e" by (simp add: e_def)
  have M: "0 \<le> M" unfolding M_def using assms pow2_pos [of e]
    by (intro round_half_even_ge) simp
  have td: "to_double q = (if pow2 1024 \<le> of_int M * pow2 e then PosInf else Num (of_int M * pow2 e))"
    using assms by (simp add: to_double_def Let_def e_def M_def)
  define n where "n = nat (e + 1074)"
  have en: "e = int n + (- 1074)" using e by (simp add: n_def)
  have "pow2 e = of_int (2 ^ nat (e + 1074)) * pow2 (- 1074)"
    unfolding n_def [symmetric] by (subst en, subst pow2_add) (simp add: pow2_nat)
  then have "of_int M * pow2 e = of_int (M * 2 ^ nat (e + 1074)) * pow2 (- 1074)"
    by simp
  moreover have "0 \<le> M * 2 ^ nat (e + 1074)" using M by simp
  ultimately show ?thesis using td by metis
qed

lemma to_double_neg: "to_double (- q) = negate (to_double q)"
  by (cases "q = 0") (auto simp: to_double_def negate_def Let_def)

lemma to_double_cases:
  "to_double q = PosInf \<or> to_double q = NegInf \<or> (\<exists>r. is_double r \<and> to_double q = Num r)"
proof -
  consider "q = 0" | "0 < q" | "0 < - q" by linarith
  then show ?thesis
  proof cases
    case 1
    then show ?thesis by (auto simp: to_double_def is_double_def intro: exI [of _ 0])
  next
    case 2
    from to_double_pos_cases [OF 2] show ?thesis by (auto simp: is_double_def)
  next
    case 3
    have eq: "to_double q = negate (to_double (- q))" using to_double_neg [of "- q"] by simp
    from to_double_pos_cases [OF 3] show ?thesis
    proof
      assume "to_double (- q) = PosInf"
      with eq show ?thesis by (simp add: negate_def)
    next
      assume "\<exists>m::int. 0 \<le> m \<and> to_double (- q) = Num (of_int m * pow2 (- 1074))"
      then obtain m :: int where "to_double (- q) = Num (of_int m * pow2 (- 1074))" by blast
      with eq have "to_double q = Num (of_int (- m) * pow2 (- 1074))" by (simp add: negate_def)
      then show ?thesis unfolding is_double_def by blast
    qed
  qed
qed

lemma to_double_nonneg:
  "0 \<le> q \<Longrightarrow> to_double q = PosInf \<or> (\<exists>r. 0 \<le> r \<and> is_double r \<and> to_double q = Num r)"
proof (cases "q = 0")
  case True
  then show ?thesis by (auto simp: to_double_def is_double_def intro: exI [of _ 0])
next
  case False
  assume "0 \<le> q"
  with False have "0 < q" by simp
  from to_double_pos_cases [OF this] show ?thesis
    by (auto simp: is_double_def pow2_pos less_imp_le)
qed

lemma positive_to_double:
  assumes "is_double q"
  shows "positive (to_double q) \<longleftrightarrow> 0 < q"
proof (cases "0 < q")
  case True
  from assms obtain m :: int where m: "q = of_int m * pow2 (- 1074)" by (auto simp: is_double_def)
  with True have "0 < (of_int m :: rat)" using pow2_pos [of "- 1074"] by (simp add: zero_less_mult_iff)
  then have m1: "1 \<le> m" by simp
  define e where "e = max (flog 2 q - 52) (- 1074)"
  define M where "M = round_half_even (q / pow2 e)"
  have "1 \<le> q / pow2 e"
  proof (cases "flog 2 q - 52 \<le> - 1074")
    case True
    then have "e = - 1074" by (simp add: e_def)
    with m m1 show ?thesis using pow2_pos [of "- 1074"] by simp
  next
    case False
    then have ee: "e = flog 2 q - 52" by (simp add: e_def)
    have "pow2 e \<le> pow2 (flog 2 q)" unfolding ee by (rule pow2_mono) simp
    also have "\<dots> \<le> q" using \<open>0 < q\<close> by (rule flog2_le)
    finally show ?thesis using pow2_pos [of e] by simp
  qed
  then have "1 \<le> M" unfolding M_def by (intro round_half_even_ge) simp
  then have "0 < of_int M * pow2 e" using pow2_pos [of e] by simp
  moreover have "to_double q = (if pow2 1024 \<le> of_int M * pow2 e then PosInf else Num (of_int M * pow2 e))"
    using True by (simp add: to_double_def Let_def e_def M_def)
  ultimately show ?thesis using True by (simp add: positive_def)
next
  case False
  then have "0 \<le> - q" by simp
  from to_double_nonneg [OF this] have "\<not> positive (negate (to_double (- q)))"
    by (auto simp: positive_def negate_def)
  with False show ?thesis using to_double_neg [of "- q"] by simp
qed

lemma is_double_diff: "is_double x \<Longrightarrow> is_double y \<Longrightarrow> is_double (y - x)"
  unfolding is_double_def
proof -
  assume "\<exists>m::int. x = of_int m * pow2 (- 1074)" "\<exists>m::int. y = of_int m * pow2 (- 1074)"
  then obtain a b :: int where "x = of_int a * pow2 (- 1074)" "y = of_int b * pow2 (- 1074)" by blast
  then have "y - x = of_int (b - a) * pow2 (- 1074)" by (simp add: algebra_simps)
  then show "\<exists>m::int. y - x = of_int m * pow2 (- 1074)" by blast
qed

subsection \<open>Reading and writing numbers\<close>

lemma good_to_double: "0 \<le> q \<Longrightarrow> good (to_double q)"
  using to_double_nonneg [of q] by (auto simp: good_def)

lemma digits_acc_nonneg:
  "list_all is_digit ds \<Longrightarrow> 0 \<le> a \<Longrightarrow> 0 \<le> foldl (\<lambda>a c. 10 * a + digit_val c) a ds"
proof (induction ds arbitrary: a)
  case Nil
  then show ?case by simp
next
  case (Cons c ds)
  from Cons.prems have "48 \<le> (of_char c :: nat)"
    by (simp add: is_digit_def in_range_def)
  then have "int 48 \<le> int (of_char c)" by (simp only: of_nat_le_iff)
  then have "48 \<le> (of_char c :: int)" unfolding of_nat_of_char by simp
  then have "0 \<le> digit_val c" by (simp add: digit_val_def)
  with Cons show ?case by simp
qed

lemma digits_val_nonneg: "list_all is_digit ds \<Longrightarrow> 0 \<le> digits_val ds"
  unfolding digits_val_def by (rule digits_acc_nonneg) simp_all

lemma takeWhile_digits: "list_all is_digit (takeWhile is_digit s)"
  by (induction s) simp_all

lemma pow10_pos: "0 < pow10 e"
  by (simp add: pow10_def)

lemma digit_facts:
  assumes "is_digit c"
  shows "\<not> is_ws c" "c \<noteq> CHR ''-''" "c \<noteq> CHR ''+''" "c \<noteq> CHR ''I''" "c \<noteq> CHR ''.''"
  using assms by (auto simp: is_digit_def in_range_def is_ws_def)

lemma str_unsigned_decimal_digit_led:
  assumes "digit_led s"
  shows "good (str_unsigned_decimal s)"
proof -
  from assms obtain c r where s: "s = c # r" and c: "is_digit c"
    by (auto simp: digit_led_def split: list.splits)
  have inf: "take 8 s \<noteq> ''Infinity''" using s digit_facts(4) [OF c] by auto
  define ip where "ip = takeWhile is_digit s"
  define rest where "rest = dropWhile is_digit s"
  have ip: "ip \<noteq> []" "list_all is_digit ip" using s c by (simp_all add: ip_def takeWhile_digits)
  have v1: "0 \<le> (of_int (digits_val ip) :: rat)" using ip by (simp add: digits_val_nonneg)
  show ?thesis
  proof (cases rest)
    case Nil
    with inf ip v1 show ?thesis
      by (simp add: str_unsigned_decimal_def Let_def ip_def [symmetric] rest_def [symmetric] good_to_double)
  next
    case (Cons d r2)
    show ?thesis
    proof (cases "d = CHR ''.''")
      case True
      define fp where "fp = takeWhile is_digit r2"
      have "list_all is_digit (ip @ fp)" using ip by (simp add: fp_def takeWhile_digits)
      then have "0 \<le> (of_int (digits_val (ip @ fp)) :: rat)" by (simp add: digits_val_nonneg)
      then have "0 \<le> of_int (digits_val (ip @ fp)) * pow10 (exponent_part (dropWhile is_digit r2) - int (length fp))"
        using pow10_pos by (simp add: less_imp_le)
      with inf ip Cons True show ?thesis
        by (simp add: str_unsigned_decimal_def Let_def ip_def [symmetric] rest_def [symmetric]
            fp_def [symmetric] good_to_double)
    next
      case False
      have "0 \<le> of_int (digits_val ip) * pow10 (exponent_part rest)"
        using v1 pow10_pos by (simp add: less_imp_le)
      with inf ip Cons False show ?thesis
        by (simp add: str_unsigned_decimal_def Let_def ip_def [symmetric] rest_def [symmetric] good_to_double)
    qed
  qed
qed

lemma parseFloat_digit_led:
  assumes "digit_led s"
  shows "good (parseFloat s)"
proof -
  from assms obtain c r where s: "s = c # r" and c: "is_digit c"
    by (auto simp: digit_led_def split: list.splits)
  from s digit_facts [OF c] have "parseFloat s = str_unsigned_decimal s"
    by (simp add: parseFloat_def)
  with assms show ?thesis by (simp add: str_unsigned_decimal_digit_led)
qed

lemma parseFloat_Infinity: "parseFloat ''Infinity'' = PosInf"
  by (simp add: parseFloat_def is_ws_def str_unsigned_decimal_def)

lemma show_nat_digit_led: "digit_led (show_nat n)"
  using show_nat_digits [of n] by (cases "show_nat n") (simp_all add: digit_led_def)

lemma digit_led_append: "digit_led s \<Longrightarrow> digit_led (s @ t)"
  by (cases s) (simp_all add: digit_led_def)

lemma digit_led_take: "digit_led s \<Longrightarrow> 0 < n \<Longrightarrow> digit_led (take n s)"
  by (cases s; cases n) (simp_all add: digit_led_def)

lemma positive_toString_digit_led: "digit_led (positive_toString x)"
proof -
  obtain k n s where sd: "shortest_digits x = (k, n, s)" by (cases "shortest_digits x")
  have z: "digit_led (''0.'' @ t)" for t by (simp add: digit_led_def is_digit_def in_range_def)
  show ?thesis
    using show_nat_digit_led [of s]
    by (auto simp: positive_toString_def sd Let_def z [simplified]
        intro!: digit_led_append digit_led_take)
qed

lemma toFixed_good:
  assumes "good v"
  shows "toFixed v f = ''Infinity'' \<or> digit_led (toFixed v f)"
proof (cases "v = PosInf")
  case True
  then show ?thesis by (simp add: toFixed_def number_toString_def)
next
  case False
  with assms obtain x where x: "0 \<le> x" "v = Num x" by (auto simp: good_def)
  show ?thesis
  proof (cases "10 ^ 21 \<le> x")
    case True
    with x show ?thesis by (simp add: toFixed_def Let_def positive_toString_digit_led)
  next
    case big: False
    define m where "m = show_nat \<lfloor>x * 10 ^ f + 1 / 2\<rfloor>"
    have m: "digit_led m" by (simp add: m_def show_nat_digit_led)
    show ?thesis
    proof (cases "f = 0")
      case True
      with x big m show ?thesis by (simp add: toFixed_def Let_def m_def)
    next
      case False
      define m' where "m' = (if length m \<le> f then replicate (f + 1 - length m) CHR ''0'' @ m else m)"
      have l: "f < length m'" by (auto simp: m'_def)
      have "digit_led m'"
      proof (cases "length m \<le> f")
        case True
        then have "m' = CHR ''0'' # replicate (f - length m) CHR ''0'' @ m"
          by (simp add: m'_def Suc_diff_le)
        then show ?thesis by (simp add: digit_led_def is_digit_def in_range_def)
      next
        case False
        with m show ?thesis by (simp add: m'_def)
      qed
      with l have "digit_led (take (length m' - f) m' @ ''.'' @ drop (length m' - f) m')"
        by (intro digit_led_append digit_led_take) simp_all
      moreover have "toFixed v f = take (length m' - f) m' @ ''.'' @ drop (length m' - f) m'"
        using x big False by (simp add: toFixed_def Let_def m_def m'_def)
      ultimately show ?thesis by simp
    qed
  qed
qed

lemma decimal_balance_good:
  assumes "digit_led formatted"
  shows "good (parseFloat (toFixed (parseFloat formatted) f))"
proof -
  from assms have "good (parseFloat formatted)" by (rule parseFloat_digit_led)
  from toFixed_good [OF this, of f] show ?thesis
  proof
    assume "toFixed (parseFloat formatted) f = ''Infinity''"
    then show ?thesis by (simp add: parseFloat_Infinity good_def)
  next
    assume "digit_led (toFixed (parseFloat formatted) f)"
    then show ?thesis by (rule parseFloat_digit_led)
  qed
qed

subsection \<open>formatUnits\<close>

lemma Zeros_digits: "list_all is_digit Zeros"
  by (simp add: Zeros_def list_all_iff is_digit_def in_range_def)

lemma pad_whole_props:
  "str \<noteq> [] \<Longrightarrow> list_all is_digit str \<Longrightarrow>
     pad_whole d str \<noteq> [] \<and> list_all is_digit (pad_whole d str) \<and> d < int (length (pad_whole d str))"
proof (induction d str rule: pad_whole.induct)
  case (1 decimals str)
  show ?case
  proof (cases "int (length str) \<le> decimals")
    case True
    with 1 Zeros_digits show ?thesis by (simp add: pad_whole.simps [of decimals str])
  next
    case False
    with 1 show ?thesis by (simp add: pad_whole.simps [of decimals str])
  qed
qed

lemma trim_whole_point:
  "CHR ''.'' \<notin> set zs \<Longrightarrow>
     \<exists>zs'. trim_whole (zs @ CHR ''.'' # ws) = zs' @ CHR ''.'' # ws \<and> (zs \<noteq> [] \<longrightarrow> zs' \<noteq> [])
            \<and> set zs' \<subseteq> set zs"
proof (induction zs)
  case Nil
  show ?case by (cases ws) simp_all
next
  case (Cons a zs1)
  show ?case
  proof (cases zs1)
    case Nil
    then show ?thesis by (intro exI [of _ "[a]"]) simp
  next
    case (Cons b r)
    show ?thesis
    proof (cases "a = CHR ''0''")
      case True
      from Cons.IH Cons.prems obtain zs' where
        "trim_whole (zs1 @ CHR ''.'' # ws) = zs' @ CHR ''.'' # ws" "zs1 \<noteq> [] \<longrightarrow> zs' \<noteq> []" "set zs' \<subseteq> set zs1"
        by auto
      with Cons True Cons.prems show ?thesis by (intro exI [of _ zs']) auto
    next
      case False
      with Cons show ?thesis by (intro exI [of _ "a # zs1"]) simp
    qed
  qed
qed

lemma digits_no_point: "list_all is_digit xs \<Longrightarrow> CHR ''.'' \<notin> set xs"
  by (auto simp: list_all_iff is_digit_def in_range_def)

lemma fixed_toString_digit_led:
  assumes "0 \<le> v"
  shows "digit_led (fixed_toString v d)"
proof (cases "d = 0")
  case True
  with assms show ?thesis by (simp add: fixed_toString_def show_nat_digit_led)
next
  case False
  define str1 where "str1 = pad_whole d (show_nat \<bar>v\<bar>)"
  define index where "index = nat (int (length str1) - d)"
  define ip where "ip = take index str1"
  define fp where "fp = drop index str1"
  have p: "str1 \<noteq> []" "list_all is_digit str1" "d < int (length str1)"
    using pad_whole_props [of "show_nat \<bar>v\<bar>" d] show_nat_digits [of "\<bar>v\<bar>"] by (simp_all add: str1_def)
  have i: "0 < index" using p(3) by (simp add: index_def)
  have ip: "ip \<noteq> []" "list_all is_digit ip" using p i by (auto simp: ip_def list_all_iff dest: in_set_takeD)
  have fp: "list_all is_digit fp" using p by (auto simp: fp_def list_all_iff dest: in_set_dropD)
  from trim_whole_point [OF digits_no_point [OF ip(2)], of fp] ip(1) obtain ip' where
    t1: "trim_whole (ip @ CHR ''.'' # fp) = ip' @ CHR ''.'' # fp" and ip': "ip' \<noteq> []" "set ip' \<subseteq> set ip"
    by auto
  have "CHR ''.'' \<notin> set (rev fp)" using digits_no_point [OF fp] by simp
  from trim_whole_point [OF this, of "rev ip'"] obtain zs' where
    t2: "trim_whole (rev fp @ CHR ''.'' # rev ip') = zs' @ CHR ''.'' # rev ip'" by auto
  have "trim_decimal (trim_whole (ip @ ''.'' @ fp)) = ip' @ CHR ''.'' # rev zs'"
    using t1 t2 by (simp add: trim_decimal_def)
  moreover have "digit_led ip'" using ip' ip(2) by (cases ip') (auto simp: digit_led_def list_all_iff)
  ultimately have "digit_led (trim_decimal (trim_whole (ip @ ''.'' @ fp)))"
    by (simp add: digit_led_append)
  moreover have "fixed_toString v d = trim_decimal (trim_whole (ip @ ''.'' @ fp))"
    using False assms by (simp add: fixed_toString_def Let_def str1_def index_def ip_def fp_def)
  ultimately show ?thesis by simp
qed

lemma formatUnits_digit_led: "0 \<le> v \<Longrightarrow> formatUnits v u = Inr f \<Longrightarrow> digit_led f"
  by (auto simp: formatUnits_def fixed_toString_digit_led split: number.splits if_splits)

subsection \<open>Sorting\<close>

lemma set_insert_sorted: "set (insert_sorted cmp x xs) = insert x (set xs)"
  by (induction xs) auto

lemma length_insert_sorted: "length (insert_sorted cmp x xs) = Suc (length xs)"
  by (induction xs) auto

lemma set_js_sort: "set (js_sort cmp xs) = set xs"
  unfolding js_sort_def by (induction xs) (simp_all add: set_insert_sorted)

lemma length_js_sort: "length (js_sort cmp xs) = length xs"
  unfolding js_sort_def by (induction xs) (simp_all add: length_insert_sorted)

lemma insert_sorted_sorted:
  assumes char: "\<And>a b. a \<in> A \<Longrightarrow> b \<in> A \<Longrightarrow> positive (cmp a b) \<longleftrightarrow> \<not> R a b"
    and total: "\<And>a b. a \<in> A \<Longrightarrow> b \<in> A \<Longrightarrow> R a b \<or> R b a"
    and trans: "\<And>a b c. a \<in> A \<Longrightarrow> b \<in> A \<Longrightarrow> c \<in> A \<Longrightarrow> R a b \<Longrightarrow> R b c \<Longrightarrow> R a c"
    and "x \<in> A" "set xs \<subseteq> A" "sorted_wrt R xs"
  shows "sorted_wrt R (insert_sorted cmp x xs)"
  using assms(4-)
proof (induction xs)
  case Nil
  then show ?case by simp
next
  case (Cons y ys)
  show ?case
  proof (cases "positive (cmp x y)")
    case True
    with char [of x y] Cons.prems have "\<not> R x y" by simp
    with total [of x y] Cons.prems have "R y x" by auto
    with True Cons show ?thesis by (auto simp: set_insert_sorted)
  next
    case False
    with char [of x y] Cons.prems have xy: "R x y" by simp
    have "R x z" if "z \<in> set ys" for z
      using trans [of x y z] xy that Cons.prems by auto
    with False xy Cons.prems show ?thesis by auto
  qed
qed

lemma js_sort_sorted:
  assumes char: "\<And>a b. a \<in> A \<Longrightarrow> b \<in> A \<Longrightarrow> positive (cmp a b) \<longleftrightarrow> \<not> R a b"
    and total: "\<And>a b. a \<in> A \<Longrightarrow> b \<in> A \<Longrightarrow> R a b \<or> R b a"
    and trans: "\<And>a b c. a \<in> A \<Longrightarrow> b \<in> A \<Longrightarrow> c \<in> A \<Longrightarrow> R a b \<Longrightarrow> R b c \<Longrightarrow> R a c"
    and "set xs \<subseteq> A"
  shows "sorted_wrt R (js_sort cmp xs)"
  using assms(4)
proof (induction xs)
  case Nil
  then show ?case by (simp add: js_sort_def)
next
  case (Cons x xs)
  then have 1: "sorted_wrt R (js_sort cmp xs)" by simp
  have 2: "set (js_sort cmp xs) \<subseteq> A" using Cons.prems by (simp add: set_js_sort)
  have 3: "x \<in> A" using Cons.prems by simp
  have "sorted_wrt R (insert_sorted cmp x (js_sort cmp xs))"
  proof (rule insert_sorted_sorted [where A = A and R = R])
    fix a b assume "a \<in> A" "b \<in> A"
    then show "positive (cmp a b) \<longleftrightarrow> \<not> R a b" by (rule char)
  next
    fix a b assume "a \<in> A" "b \<in> A"
    then show "R a b \<or> R b a" by (rule total)
  next
    fix a b c assume "a \<in> A" "b \<in> A" "c \<in> A" "R a b" "R b c"
    then show "R a c" by (rule trans)
  qed (rule 3 2 1)+
  then show ?case by (simp add: js_sort_def)
qed

lemma good_compare:
  assumes "good a" and "good b"
  shows "positive (js_sub b a) \<longleftrightarrow> \<not> num_le b a"
proof -
  from assms consider "a = PosInf" | x where "a = Num x" "is_double x" by (auto simp: good_def)
  then show ?thesis
  proof cases
    case 1
    with assms(2) show ?thesis by (auto simp: good_def js_sub_def positive_def num_le_def)
  next
    case a: 2
    from assms(2) consider "b = PosInf" | y where "b = Num y" "is_double y" by (auto simp: good_def)
    then show ?thesis
    proof cases
      case 1
      with a show ?thesis by (simp add: js_sub_def positive_def num_le_def)
    next
      case 2
      with a positive_to_double [OF is_double_diff [of x y]] show ?thesis
        by (auto simp: js_sub_def num_le_def)
    qed
  qed
qed

lemma num_le_total: "good a \<Longrightarrow> good b \<Longrightarrow> num_le a b \<or> num_le b a"
  by (auto simp: good_def num_le_def)

lemma num_le_trans: "num_le a b \<Longrightarrow> num_le b c \<Longrightarrow> num_le a c"
  by (cases a; cases b; cases c) (simp_all add: num_le_def)

subsection \<open>getTokenBalances\<close>

lemma token_balance_result:
  "\<exists>hs s'. token_balance w address tk s = (Inr hs, s') \<and> length hs \<le> 1 \<and> list_all held hs"
proof (cases "provider s")
  case None
  then show ?thesis
    by (simp add: token_balance_def try_catch_def bind_def via_contract_def ret_def)
next
  case (Some url)
  show ?thesis
  proof (cases "erc20_balanceOf w (contractAddress tk) address")
    case (Inl m)
    with Some show ?thesis
      by (simp add: token_balance_def try_catch_def bind_def via_contract_def upstream_def ret_def)
  next
    case (Inr b)
    show ?thesis
    proof (cases "0 < b")
      case False
      with Some Inr show ?thesis
        by (simp add: token_balance_def try_catch_def bind_def via_contract_def upstream_def ret_def)
    next
      case True
      show ?thesis
      proof (cases "formatUnits (uint b) (decimals tk)")
        case (Inl e)
        with Some Inr True show ?thesis
          by (simp add: token_balance_def try_catch_def bind_def via_contract_def upstream_def ret_def
              lift_def)
      next
        case f: (Inr f)
        then have "digit_led f" by (intro formatUnits_digit_led [of "uint b"]) simp_all
        with True have "held (token.extend tk (holding.fields (toFixed (parseFloat f) 4) (show_int (uint b))))"
          unfolding held_def by (intro exI [of _ b] exI [of _ f]) (simp add: token.defs holding.defs)
        with Some Inr True f show ?thesis
          by (simp add: token_balance_def try_catch_def bind_def via_contract_def upstream_def ret_def
              lift_def)
      qed
    qed
  qed
qed

lemma token_loop_result:
  "list_all held acc \<Longrightarrow>
     \<exists>hs s'. token_loop w address tks acc s = (Inr hs, s') \<and> length hs \<le> length acc + length tks
              \<and> list_all held hs"
proof (induction tks arbitrary: acc s)
  case Nil
  then show ?case by (simp add: ret_def)
next
  case (Cons tk rest)
  from token_balance_result [of w address tk s] obtain pushed s1 where
    tb: "token_balance w address tk s = (Inr pushed, s1)" "length pushed \<le> 1" "list_all held pushed"
    by blast
  with Cons.prems have "list_all held (acc @ pushed)" by simp
  from Cons.IH [OF this, of s1] obtain hs s' where
    "token_loop w address rest (acc @ pushed) s1 = (Inr hs, s')"
    "length hs \<le> length (acc @ pushed) + length rest" "list_all held hs" by blast
  with tb show ?case by (simp add: bind_def)
qed

lemma held_good: "held h \<Longrightarrow> good (decimal_balance h)"
  by (auto simp: held_def decimal_balance_def decimal_balance_good)

lemma held_raw: "held h \<Longrightarrow> 0 < digits_val (rawBalance h)"
proof -
  assume "held h"
  then obtain b :: "256 word" where b: "0 < b" "rawBalance h = show_int (uint b)"
    by (auto simp: held_def)
  from b(1) have "0 < uint b" by (simp add: word_less_def)
  with b(2) show ?thesis by (simp add: show_int_def digits_val_show_nat)
qed

lemma good_nonneg: "good v \<Longrightarrow> nonneg_number v"
  by (auto simp: good_def nonneg_number_def)

lemma by_balance_sorted:
  assumes "list_all held hs"
  shows "sorted_wrt (\<lambda>a b. num_le (decimal_balance b) (decimal_balance a)) (js_sort by_balance hs)"
proof (rule js_sort_sorted [where A = "Collect held"])
  fix a b assume "a \<in> Collect held" "b \<in> Collect held"
  then have g: "good (decimal_balance a)" "good (decimal_balance b)" by (simp_all add: held_good)
  from good_compare [OF g] show "positive (by_balance a b) \<longleftrightarrow> \<not> num_le (decimal_balance b) (decimal_balance a)"
    by (simp add: by_balance_def decimal_balance_def)
  from num_le_total [OF g(2,1)] show "num_le (decimal_balance b) (decimal_balance a) \<or> num_le (decimal_balance a) (decimal_balance b)" .
next
  fix a b c :: holding
  assume "num_le (decimal_balance b) (decimal_balance a)" "num_le (decimal_balance c) (decimal_balance b)"
  then show "num_le (decimal_balance c) (decimal_balance a)" by (rule num_le_trans [rotated])
next
  from assms show "set hs \<subseteq> Collect held" by (auto simp: list_all_iff)
qed

text \<open>
  Claim C2, as amended. For every address, every service state and every upstream
  response, \<^verbatim>\<open>getTokenBalances\<close> returns a list of at most 10 holdings; every holding has a
  strictly positive raw balance and a decimal balance that is a non-negative number (it
  may be zero: the display keeps four decimals); and the list is in non-increasing order
  of decimal balance, ties allowed.
\<close>

theorem holdings_bounded_positive_sorted:
  "\<exists>ts s'. getTokenBalances w address s = (Inr ts, s')
     \<and> length ts \<le> 10
     \<and> list_all (\<lambda>t. 0 < digits_val (rawBalance t) \<and> nonneg_number (decimal_balance t)) ts
     \<and> sorted_wrt (\<lambda>a b. num_le (decimal_balance b) (decimal_balance a)) ts"
proof -
  let ?P = "\<lambda>ts. length ts \<le> 10
     \<and> list_all (\<lambda>t. 0 < digits_val (rawBalance t) \<and> nonneg_number (decimal_balance t)) ts
     \<and> sorted_wrt (\<lambda>a b. num_le (decimal_balance b) (decimal_balance a)) ts"
  define url where "url = tokentx_url s address"
  define s1 where "s1 = s\<lparr>trace := trace s @ [CallFetch url]\<rparr>"
  have empty: "?P []" by simp
  show ?thesis
  proof (cases "fetch_tokentx w url")
    case (Inl m)
    then have "getTokenBalances w address s = (Inr [], s1)"
      by (simp add: getTokenBalances_def try_catch_def bind_def upstream_def ret_def Let_def
          url_def s1_def)
    with empty show ?thesis by blast
  next
    case (Inr data)
    show ?thesis
    proof (cases "status data \<noteq> ''1''")
      case True
      with Inr have "getTokenBalances w address s = (Inr [], s1)"
        by (simp add: getTokenBalances_def try_catch_def bind_def upstream_def ret_def Let_def
            url_def s1_def)
      with empty show ?thesis by blast
    next
      case st: False
      show ?thesis
      proof (cases "\<exists>txs. result data = Array txs")
        case False
        with Inr st have "getTokenBalances w address s = (Inr [], s1)"
          by (cases "result data")
             (simp_all add: getTokenBalances_def try_catch_def bind_def upstream_def ret_def Let_def
               url_def s1_def throw_def)
        with empty show ?thesis by blast
      next
        case True
        then obtain txs where Some: "result data = Array txs" by blast
        define tks where "tks = take 10 (map snd (foldl note_token [] txs))"
        from token_loop_result [of "[]" w address tks s1] obtain hs s2 where
          tl: "token_loop w address tks [] s1 = (Inr hs, s2)" "length hs \<le> length tks" "list_all held hs"
          by auto
        have "getTokenBalances w address s = (Inr (js_sort by_balance hs), s2)"
          using Inr st Some tl(1)
          by (simp add: getTokenBalances_def try_catch_def bind_def upstream_def ret_def Let_def
              url_def s1_def tks_def)
        moreover have "length (js_sort by_balance hs) \<le> 10"
          using tl(2) by (simp add: length_js_sort tks_def)
        moreover have "list_all (\<lambda>t. 0 < digits_val (rawBalance t) \<and> nonneg_number (decimal_balance t))
            (js_sort by_balance hs)"
          using tl(3) by (auto simp: list_all_iff set_js_sort held_raw held_good good_nonneg)
        moreover note by_balance_sorted [OF tl(3)]
        ultimately show ?thesis by blast
      qed
    qed
  qed
qed

subsection \<open>The second scenario\<close>

lemma ex_parseInt: "parseInt ''18'' = Num 18"
  by code_simp

lemma ex_units: "formatUnits 1000000000000000000 (Num 18) = Inr ''1.0''"
  "formatUnits 1 (Num 18) = Inr ''0.000000000000000001''"
  by code_simp+

lemma ex_fixed: "toFixed (parseFloat ''1.0'') 4 = ''1.0000''"
  "toFixed (parseFloat ''0.000000000000000001'') 4 = ''0.0000''"
  by code_simp+

lemma ex_show: "show_int 1000000000000000000 = ''1000000000000000000''" "show_int 1 = ''1''"
  by code_simp+

lemma ex_parse: "parseFloat ''1.0000'' = Num 1" "parseFloat ''0.0000'' = Num 0"
  by code_simp+

lemma ex_sub: "js_sub (Num 1) (Num 1) = Num 0" "js_sub (Num 0) (Num 1) = Num (- 1)"
  "js_sub (Num 1) (Num 0) = Num 1"
  by code_simp+

lemma token_balance_value:
  assumes "provider s = Some url"
    and "erc20_balanceOf w (contractAddress tk) address = Inr b"
    and "0 < b"
    and "formatUnits (uint b) (decimals tk) = Inr f"
  shows "token_balance w address tk s =
           (Inr [token.extend tk (holding.fields (toFixed (parseFloat f) 4) (show_int (uint b)))],
            s\<lparr>trace := trace s @ [CallBalanceOf (contractAddress tk) address]\<rparr>)"
  using assms
  by (simp add: token_balance_def try_catch_def bind_def via_contract_def upstream_def ret_def lift_def)

lemma tied_tokens:
  "fetch_tokentx tied_world u = Inr \<lparr>status = ''1'', msg = ''OK'',
           result = Array [transfer_of ''0xdddddddddddddddddddddddddddddddddddddddd'' ''Dust'' ''DST'', transfer_of ''0xaaaaaaaaaaaaaaaaaaaaaaaaaaaaaaaaaaaaaaaa'' ''Alpha'' ''AAA'',
                          transfer_of ''0xdddddddddddddddddddddddddddddddddddddddd'' ''Dust'' ''DST'', transfer_of ''0xbbbbbbbbbbbbbbbbbbbbbbbbbbbbbbbbbbbbbbbb'' ''Beta'' ''BBB'']\<rparr>"
  "map snd (foldl note_token []
       [transfer_of ''0xdddddddddddddddddddddddddddddddddddddddd'' ''Dust'' ''DST'', transfer_of ''0xaaaaaaaaaaaaaaaaaaaaaaaaaaaaaaaaaaaaaaaa'' ''Alpha'' ''AAA'',
        transfer_of ''0xdddddddddddddddddddddddddddddddddddddddd'' ''Dust'' ''DST'', transfer_of ''0xbbbbbbbbbbbbbbbbbbbbbbbbbbbbbbbbbbbbbbbb'' ''Beta'' ''BBB''])
     = [\<lparr>contractAddress = ''0xdddddddddddddddddddddddddddddddddddddddd'', name = ''Dust'', symbol = ''DST'', decimals = Num 18\<rparr>,
        \<lparr>contractAddress = ''0xaaaaaaaaaaaaaaaaaaaaaaaaaaaaaaaaaaaaaaaa'', name = ''Alpha'', symbol = ''AAA'', decimals = Num 18\<rparr>,
        \<lparr>contractAddress = ''0xbbbbbbbbbbbbbbbbbbbbbbbbbbbbbbbbbbbbbbbb'', name = ''Beta'', symbol = ''BBB'', decimals = Num 18\<rparr>]"
  by (simp_all add: tied_world_def note_token_def transfer_of_def ex_parseInt Let_def)

lemma tied_sort:
  "js_sort by_balance
     [holding_of ''0xdddddddddddddddddddddddddddddddddddddddd'' ''Dust'' ''DST'' ''0.0000'' ''1'',
      holding_of ''0xaaaaaaaaaaaaaaaaaaaaaaaaaaaaaaaaaaaaaaaa'' ''Alpha'' ''AAA'' ''1.0000'' ''1000000000000000000'',
      holding_of ''0xbbbbbbbbbbbbbbbbbbbbbbbbbbbbbbbbbbbbbbbb'' ''Beta'' ''BBB'' ''1.0000'' ''1000000000000000000'']
   = [holding_of ''0xaaaaaaaaaaaaaaaaaaaaaaaaaaaaaaaaaaaaaaaa'' ''Alpha'' ''AAA'' ''1.0000'' ''1000000000000000000'',
      holding_of ''0xbbbbbbbbbbbbbbbbbbbbbbbbbbbbbbbbbbbbbbbb'' ''Beta'' ''BBB'' ''1.0000'' ''1000000000000000000'',
      holding_of ''0xdddddddddddddddddddddddddddddddddddddddd'' ''Dust'' ''DST'' ''0.0000'' ''1'']"
  by (simp add: js_sort_def by_balance_def holding_of_def ex_parse ex_sub positive_def)

lemma tied_result:
  "fst (getTokenBalances tied_world vitalik connected_service) =
     Inr [holding_of ''0xaaaaaaaaaaaaaaaaaaaaaaaaaaaaaaaaaaaaaaaa'' ''Alpha'' ''AAA'' ''1.0000'' ''1000000000000000000'',
          holding_of ''0xbbbbbbbbbbbbbbbbbbbbbbbbbbbbbbbbbbbbbbbb'' ''Beta'' ''BBB'' ''1.0000'' ''1000000000000000000'',
          holding_of ''0xdddddddddddddddddddddddddddddddddddddddd'' ''Dust'' ''DST'' ''0.0000'' ''1'']"
proof -
  have bal: "erc20_balanceOf tied_world ''0xdddddddddddddddddddddddddddddddddddddddd'' a = Inr 1"
    "erc20_balanceOf tied_world ''0xaaaaaaaaaaaaaaaaaaaaaaaaaaaaaaaaaaaaaaaa'' a = Inr 1000000000000000000"
    "erc20_balanceOf tied_world ''0xbbbbbbbbbbbbbbbbbbbbbbbbbbbbbbbbbbbbbbbb'' a = Inr 1000000000000000000" for a
    by (simp_all add: tied_world_def)
  have tb: "provider s = Some url \<Longrightarrow>
      token_balance tied_world vitalik \<lparr>contractAddress = ''0xdddddddddddddddddddddddddddddddddddddddd'', name = ''Dust'', symbol = ''DST'', decimals = Num 18\<rparr> s
        = (Inr [holding_of ''0xdddddddddddddddddddddddddddddddddddddddd'' ''Dust'' ''DST'' ''0.0000'' ''1''],
           s\<lparr>trace := trace s @ [CallBalanceOf ''0xdddddddddddddddddddddddddddddddddddddddd'' vitalik]\<rparr>)"
    "provider s = Some url \<Longrightarrow>
      token_balance tied_world vitalik \<lparr>contractAddress = ''0xaaaaaaaaaaaaaaaaaaaaaaaaaaaaaaaaaaaaaaaa'', name = ''Alpha'', symbol = ''AAA'', decimals = Num 18\<rparr> s
        = (Inr [holding_of ''0xaaaaaaaaaaaaaaaaaaaaaaaaaaaaaaaaaaaaaaaa'' ''Alpha'' ''AAA'' ''1.0000'' ''1000000000000000000''],
           s\<lparr>trace := trace s @ [CallBalanceOf ''0xaaaaaaaaaaaaaaaaaaaaaaaaaaaaaaaaaaaaaaaa'' vitalik]\<rparr>)"
    "provider s = Some url \<Longrightarrow>
      token_balance tied_world vitalik \<lparr>contractAddress = ''0xbbbbbbbbbbbbbbbbbbbbbbbbbbbbbbbbbbbbbbbb'', name = ''Beta'', symbol = ''BBB'', decimals = Num 18\<rparr> s
        = (Inr [holding_of ''0xbbbbbbbbbbbbbbbbbbbbbbbbbbbbbbbbbbbbbbbb'' ''Beta'' ''BBB'' ''1.0000'' ''1000000000000000000''],
           s\<lparr>trace := trace s @ [CallBalanceOf ''0xbbbbbbbbbbbbbbbbbbbbbbbbbbbbbbbbbbbbbbbb'' vitalik]\<rparr>)" for s url
    by (subst token_balance_value [where url = url and f = "''0.000000000000000001''" and b = 1],
        simp_all add: bal ex_units ex_fixed ex_show holding_of_def token.defs holding.defs)
       (subst token_balance_value [where url = url and f = "''1.0''" and b = 1000000000000000000],
        simp_all add: bal ex_units ex_fixed ex_show holding_of_def token.defs holding.defs)+
  have loop: "token_loop tied_world vitalik
      [\<lparr>contractAddress = ''0xdddddddddddddddddddddddddddddddddddddddd'', name = ''Dust'', symbol = ''DST'', decimals = Num 18\<rparr>,
       \<lparr>contractAddress = ''0xaaaaaaaaaaaaaaaaaaaaaaaaaaaaaaaaaaaaaaaa'', name = ''Alpha'', symbol = ''AAA'', decimals = Num 18\<rparr>,
       \<lparr>contractAddress = ''0xbbbbbbbbbbbbbbbbbbbbbbbbbbbbbbbbbbbbbbbb'', name = ''Beta'', symbol = ''BBB'', decimals = Num 18\<rparr>] [] s
     = (Inr [holding_of ''0xdddddddddddddddddddddddddddddddddddddddd'' ''Dust'' ''DST'' ''0.0000'' ''1'',
             holding_of ''0xaaaaaaaaaaaaaaaaaaaaaaaaaaaaaaaaaaaaaaaa'' ''Alpha'' ''AAA'' ''1.0000'' ''1000000000000000000'',
             holding_of ''0xbbbbbbbbbbbbbbbbbbbbbbbbbbbbbbbbbbbbbbbb'' ''Beta'' ''BBB'' ''1.0000'' ''1000000000000000000''],
        s\<lparr>trace := trace s @ [CallBalanceOf ''0xdddddddddddddddddddddddddddddddddddddddd'' vitalik, CallBalanceOf ''0xaaaaaaaaaaaaaaaaaaaaaaaaaaaaaaaaaaaaaaaa'' vitalik,
                                  CallBalanceOf ''0xbbbbbbbbbbbbbbbbbbbbbbbbbbbbbbbbbbbbbbbb'' vitalik]\<rparr>)"
    if "provider s = Some url" for s url
    using that by (simp add: bind_def ret_def tb [where url = url])
  have p: "provider (connected_service\<lparr>trace := trace connected_service @ [CallFetch (tokentx_url connected_service vitalik)]\<rparr>)
      = Some ''https://eth-mainnet.g.alchemy.com/v2/demo''"
    by (simp add: connected_service_def)
  show ?thesis
    by (simp add: getTokenBalances_def try_catch_def bind_def upstream_def ret_def Let_def tied_tokens
        loop [OF p] tied_sort del: foldl_Cons foldl_Nil token_loop.simps)
qed

lemma tied_balances:
  "decimal_balance (holding_of a n sy ''1.0000'' raw) = Num 1"
  "decimal_balance (holding_of a n sy ''0.0000'' raw) = Num 0"
  by (simp_all add: decimal_balance_def holding_of_def ex_parse)

text \<open>
  Claim C2, as stated: no entry with a non-positive balance, strictly descending by
  decimal balance, at most 10 entries. In the second scenario the list has two entries of
  the same decimal balance 1.0000 and one entry of decimal balance 0.0000.
\<close>

theorem holdings_claim_counterexample:
  "fst (getTokenBalances tied_world vitalik connected_service) =
     Inr [holding_of ''0xaaaaaaaaaaaaaaaaaaaaaaaaaaaaaaaaaaaaaaaa'' ''Alpha'' ''AAA'' ''1.0000'' ''1000000000000000000'',
          holding_of ''0xbbbbbbbbbbbbbbbbbbbbbbbbbbbbbbbbbbbbbbbb'' ''Beta'' ''BBB'' ''1.0000'' ''1000000000000000000'',
          holding_of ''0xdddddddddddddddddddddddddddddddddddddddd'' ''Dust'' ''DST'' ''0.0000'' ''1'']
   \<and> \<not> claimed_holdings
         [holding_of ''0xaaaaaaaaaaaaaaaaaaaaaaaaaaaaaaaaaaaaaaaa'' ''Alpha'' ''AAA'' ''1.0000'' ''1000000000000000000'',
          holding_of ''0xbbbbbbbbbbbbbbbbbbbbbbbbbbbbbbbbbbbbbbbb'' ''Beta'' ''BBB'' ''1.0000'' ''1000000000000000000'',
          holding_of ''0xdddddddddddddddddddddddddddddddddddddddd'' ''Dust'' ''DST'' ''0.0000'' ''1'']
   \<and> \<not> num_less (decimal_balance (holding_of ''0xbbbbbbbbbbbbbbbbbbbbbbbbbbbbbbbbbbbbbbbb'' ''Beta'' ''BBB'' ''1.0000'' ''1000000000000000000''))
         (decimal_balance (holding_of ''0xaaaaaaaaaaaaaaaaaaaaaaaaaaaaaaaaaaaaaaaa'' ''Alpha'' ''AAA'' ''1.0000'' ''1000000000000000000''))
   \<and> \<not> positive (decimal_balance (holding_of ''0xdddddddddddddddddddddddddddddddddddddddd'' ''Dust'' ''DST'' ''0.0000'' ''1''))"
  by (simp add: tied_result claimed_holdings_def tied_balances num_less_def num_le_def positive_def)

theorem holdings_bounded_positive_sorted_witness:
  "fst (getTokenBalances tied_world vitalik connected_service) =
     Inr [holding_of ''0xaaaaaaaaaaaaaaaaaaaaaaaaaaaaaaaaaaaaaaaa'' ''Alpha'' ''AAA'' ''1.0000'' ''1000000000000000000'',
          holding_of ''0xbbbbbbbbbbbbbbbbbbbbbbbbbbbbbbbbbbbbbbbb'' ''Beta'' ''BBB'' ''1.0000'' ''1000000000000000000'',
          holding_of ''0xdddddddddddddddddddddddddddddddddddddddd'' ''Dust'' ''DST'' ''0.0000'' ''1'']
   \<and> list_all (\<lambda>t. 0 < digits_val (rawBalance t) \<and> nonneg_number (decimal_balance t))
         [holding_of ''0xaaaaaaaaaaaaaaaaaaaaaaaaaaaaaaaaaaaaaaaa'' ''Alpha'' ''AAA'' ''1.0000'' ''1000000000000000000'',
          holding_of ''0xbbbbbbbbbbbbbbbbbbbbbbbbbbbbbbbbbbbbbbbb'' ''Beta'' ''BBB'' ''1.0000'' ''1000000000000000000'',
          holding_of ''0xdddddddddddddddddddddddddddddddddddddddd'' ''Dust'' ''DST'' ''0.0000'' ''1'']
   \<and> sorted_wrt (\<lambda>a b. num_le (decimal_balance b) (decimal_balance a))
         [holding_of ''0xaaaaaaaaaaaaaaaaaaaaaaaaaaaaaaaaaaaaaaaa'' ''Alpha'' ''AAA'' ''1.0000'' ''1000000000000000000'',
          holding_of ''0xbbbbbbbbbbbbbbbbbbbbbbbbbbbbbbbbbbbbbbbb'' ''Beta'' ''BBB'' ''1.0000'' ''1000000000000000000'',
          holding_of ''0xdddddddddddddddddddddddddddddddddddddddd'' ''Dust'' ''DST'' ''0.0000'' ''1'']"
proof -
  from holdings_bounded_positive_sorted [of tied_world vitalik connected_service] obtain ts s' where
    r: "getTokenBalances tied_world vitalik connected_service = (Inr ts, s')"
    and p: "list_all (\<lambda>t. 0 < digits_val (rawBalance t) \<and> nonneg_number (decimal_balance t)) ts"
      "sorted_wrt (\<lambda>a b. num_le (decimal_balance b) (decimal_balance a)) ts"
    by blast
  from r tied_result have "ts = [holding_of ''0xaaaaaaaaaaaaaaaaaaaaaaaaaaaaaaaaaaaaaaaa'' ''Alpha'' ''AAA'' ''1.0000'' ''1000000000000000000'',
          holding_of ''0xbbbbbbbbbbbbbbbbbbbbbbbbbbbbbbbbbbbbbbbb'' ''Beta'' ''BBB'' ''1.0000'' ''1000000000000000000'',
          holding_of ''0xdddddddddddddddddddddddddddddddddddddddd'' ''Dust'' ''DST'' ''0.0000'' ''1'']" by simp
  with p tied_result show ?thesis by simp
qed

end
